theory Spec2Isabelle
  imports Main "HOL-Library.Word" "HOL-Library.Multiset" "HOL-Library.Sublist"
begin

section \<open>The resource model read by the compiler\<close>

text \<open>
  The compiler of \<^verbatim>\<open>writer/proto/resource.go\<close> reads a \<^verbatim>\<open>*parser.ParsedResource\<close>
  and appends messages to a file builder and RPC methods to a service builder. The
  packages \<^verbatim>\<open>parser\<close>, \<^verbatim>\<open>schema\<close> and \<^verbatim>\<open>constants\<close> are not among the sources; the
  types below hold exactly the members that \<^verbatim>\<open>resource.go\<close> reads.
\<close>

text \<open>
  Modelled from the spec: the declaration of \<^verbatim>\<open>schema.Type\<close> is missing. The six
  enumerators are the ones the switch of \<^verbatim>\<open>GeneratedResourceMessage\<close> names (the spec's
  scalar types string, int32, int64, bool, double, float); every other enumerator is
  \<open>Type_UNMAPPED s\<close>, where \<open>s\<close> is the text its \<^verbatim>\<open>String()\<close> method prints under \<^verbatim>\<open>%s\<close>.
\<close>

datatype schema_Type =
    Type_STRING
  | Type_INT32
  | Type_INT64
  | Type_BOOLEAN
  | Type_DOUBLE
  | Type_FLOAT
  | Type_UNMAPPED string

text \<open>
  Modelled from the spec: a field of the schema (\<^verbatim>\<open>FieldSchema { name, scalarType, number }\<close>);
  the code reads \<^verbatim>\<open>p.Name\<close>, \<^verbatim>\<open>p.Type\<close> and \<^verbatim>\<open>p.Number\<close>, the last one an \<^verbatim>\<open>int32\<close>
  (the argument type of \<^verbatim>\<open>SetNumber\<close>).
\<close>

record Field =
  Name :: string
  Type :: schema_Type
  Number :: "32 word"

text \<open>
  The method configurations are pointers that the compiler only compares with \<^verbatim>\<open>nil\<close>;
  their contents are never read.
\<close>

datatype Method_Config = Method_Config

record Methods =
  Create :: "Method_Config option"
  Read :: "Method_Config option"
  Update :: "Method_Config option"
  Delete :: "Method_Config option"
  List :: "Method_Config option"
  GlobalList :: "Method_Config option"
  Apply :: "Method_Config option"

text \<open>
  Modelled from the spec: the declaration of \<^verbatim>\<open>parser.ParsedResource\<close> is missing. The
  members are those \<^verbatim>\<open>resource.go\<close> reads: \<^verbatim>\<open>r.Kind\<close>, \<^verbatim>\<open>r.Plural\<close>, \<^verbatim>\<open>r.Type\<close>
  (here \<open>Type_res\<close>), the fields behind \<^verbatim>\<open>r.GetFieldsSortedByNumber()\<close>, \<^verbatim>\<open>r.Parents\<close>
  (a slice of pointers, so an entry may be \<^verbatim>\<open>nil\<close>: \<open>None\<close>) and \<^verbatim>\<open>r.Methods\<close> (a pointer).
  A value of this type is a finite tree: a resource that is its own ancestor is not
  represented.
\<close>

datatype ParsedResource = ParsedResource
  (Kind: string)
  (Plural: string)
  (Type_res: string)
  (Fields: "Field list")
  (Parents: "ParsedResource option list")
  (Methods: "Methods option")

text \<open>
  Modelled from the spec: \<^verbatim>\<open>GetFieldsSortedByNumber\<close> is a method of the missing parser
  package. The spec has the fields "iterated in field-number order"; the numbers are
  signed 32-bit integers, and fields with equal numbers keep their order.
\<close>

definition GetFieldsSortedByNumber :: "ParsedResource \<Rightarrow> Field list" where
  "GetFieldsSortedByNumber r = sort_key (\<lambda>p. sint (Number p)) (Fields r)"

text \<open>
  The package \<^verbatim>\<open>constants\<close> is missing as well. Its names and numbers are a parameter
  of every function that reads them.
\<close>

record constants =
  FIELD_PARENT_NAME :: string
  FIELD_PARENT_NUMBER :: "32 word"
  FIELD_ID_NAME :: string
  FIELD_ID_NUMBER :: "32 word"
  FIELD_PATH_NAME :: string
  FIELD_PATH_NUMBER :: "32 word"
  FIELD_RESOURCE_NUMBER :: "32 word"
  FIELD_RESOURCES_NUMBER :: "32 word"
  FIELD_UPDATE_MASK_NAME :: string
  FIELD_UPDATE_MASK_NUMBER :: "32 word"
  FIELD_PAGE_TOKEN_NAME :: string
  FIELD_PAGE_TOKEN_NUMBER :: "32 word"
  FIELD_MAX_PAGE_SIZE_NAME :: string
  FIELD_MAX_PAGE_SIZE_NUMBER :: "32 word"
  FIELD_NEXT_PAGE_TOKEN_NAME :: string
  FIELD_NEXT_PAGE_TOKEN_NUMBER :: "32 word"

section \<open>Errors and the descriptor registry\<close>

text \<open>
  A Go error is its message and, for \<^verbatim>\<open>fmt.Errorf\<close> with \<^verbatim>\<open>%w\<close>, the error it wraps.
\<close>

datatype error = Error (message: string) (wrapped: "error option")

datatype MessageDescriptor = MessageDescriptor (fullName: string)

text \<open>
  \<^verbatim>\<open>desc.LoadMessageDescriptorForType\<close> and \<^verbatim>\<open>desc.LoadMessageDescriptor\<close> query the global
  registry of the protobuf library. Each returns a descriptor pointer and an error; what
  they return is a parameter of the model, keyed by the name asked for.
\<close>

record desc =
  LoadMessageDescriptorForType :: "string \<Rightarrow> MessageDescriptor option \<times> error option"
  LoadMessageDescriptor :: "string \<Rightarrow> MessageDescriptor option \<times> error option"

section \<open>Strings\<close>

text \<open>
  \<^verbatim>\<open>strings.ToLower\<close> on the bytes of a string: the letters A to Z are mapped to a to z.
  Go also maps upper-case letters outside ASCII; the model agrees with Go on ASCII strings.
\<close>

definition ToLower_char :: "char \<Rightarrow> char" where
  "ToLower_char ch =
     (if (65::nat) \<le> of_char ch \<and> of_char ch \<le> (90::nat)
      then char_of (of_char ch + (32::nat)) else ch)"

definition ToLower :: "string \<Rightarrow> string" where
  "ToLower s = map ToLower_char s"

fun Join :: "string list \<Rightarrow> string \<Rightarrow> string" where
  "Join [] sep = []"
| "Join [x] sep = x"
| "Join (x # y # ys) sep = x @ sep @ Join (y # ys) sep"

section \<open>The builders of the protobuf library\<close>

text \<open>
  The builders of \<^verbatim>\<open>jhump/protoreflect\<close> are records of what the compiler sets on them.
  A builder that refers to a message builder (a field of message type, the input and
  output of a method) holds the name of that message. Adding to a builder appends; the
  library's own refusal of duplicate names and tags is outside the model.
\<close>

datatype FieldType =
    FieldTypeBool
  | FieldTypeString
  | FieldTypeInt32
  | FieldTypeInt64
  | FieldTypeDouble
  | FieldTypeFloat
  | FieldTypeMessage string
  | FieldTypeImportedMessage "MessageDescriptor option"

datatype FieldBehavior = FieldBehavior_REQUIRED

record ResourceReference =
  reference_type :: string

record FieldOptions =
  E_FieldBehavior :: "FieldBehavior list option"
  E_ResourceReference :: "ResourceReference option"

record FieldBuilder =
  field_name :: string
  field_type :: FieldType
  field_number :: "32 word"
  field_comments :: string
  field_repeated :: bool
  field_options :: "FieldOptions option"

record MessageOptions =
  message_options_set :: unit

record MessageBuilder =
  message_name :: string
  message_fields :: "FieldBuilder list"
  message_comments :: string
  message_options :: "MessageOptions option"

datatype RpcType =
    RpcTypeMessage string bool
  | RpcTypeImportedMessage "MessageDescriptor option" bool

datatype HttpRule_Pattern =
    HttpRule_Get string
  | HttpRule_Post string
  | HttpRule_Put string
  | HttpRule_Patch string
  | HttpRule_Delete string

record HttpRule =
  Pattern :: HttpRule_Pattern
  Body :: string

record MethodOptions =
  E_Http :: "HttpRule option"
  E_MethodSignature :: "string list option"

record MethodBuilder =
  method_name :: string
  method_input :: RpcType
  method_output :: RpcType
  method_comments :: string
  method_options :: "MethodOptions option"

record FileBuilder =
  file_messages :: "MessageBuilder list"

record ServiceBuilder =
  service_methods :: "MethodBuilder list"

definition NewField :: "string \<Rightarrow> FieldType \<Rightarrow> FieldBuilder" where
  "NewField n typ =
     \<lparr>field_name = n, field_type = typ, field_number = 0, field_comments = [],
      field_repeated = False, field_options = None\<rparr>"

definition SetNumber :: "32 word \<Rightarrow> FieldBuilder \<Rightarrow> FieldBuilder" where
  "SetNumber n f = f\<lparr>field_number := n\<rparr>"

definition SetComments :: "string \<Rightarrow> FieldBuilder \<Rightarrow> FieldBuilder" where
  "SetComments leading f = f\<lparr>field_comments := leading\<rparr>"

definition SetOptions :: "FieldOptions \<Rightarrow> FieldBuilder \<Rightarrow> FieldBuilder" where
  "SetOptions o' f = f\<lparr>field_options := Some o'\<rparr>"

definition SetRepeated :: "FieldBuilder \<Rightarrow> FieldBuilder" where
  "SetRepeated f = f\<lparr>field_repeated := True\<rparr>"

definition NewMessage :: "string \<Rightarrow> MessageBuilder" where
  "NewMessage n =
     \<lparr>message_name = n, message_fields = [], message_comments = [], message_options = None\<rparr>"

definition AddField :: "FieldBuilder \<Rightarrow> MessageBuilder \<Rightarrow> MessageBuilder" where
  "AddField f mb = mb\<lparr>message_fields := message_fields mb @ [f]\<rparr>"

definition Message_SetComments :: "string \<Rightarrow> MessageBuilder \<Rightarrow> MessageBuilder" where
  "Message_SetComments leading mb = mb\<lparr>message_comments := leading\<rparr>"

definition Message_SetOptions :: "MessageOptions \<Rightarrow> MessageBuilder \<Rightarrow> MessageBuilder" where
  "Message_SetOptions o' mb = mb\<lparr>message_options := Some o'\<rparr>"

definition NewMethod :: "string \<Rightarrow> RpcType \<Rightarrow> RpcType \<Rightarrow> MethodBuilder" where
  "NewMethod n req resp =
     \<lparr>method_name = n, method_input = req, method_output = resp, method_comments = [],
      method_options = None\<rparr>"

definition Method_SetComments :: "string \<Rightarrow> MethodBuilder \<Rightarrow> MethodBuilder" where
  "Method_SetComments leading m = m\<lparr>method_comments := leading\<rparr>"

definition Method_SetOptions :: "MethodOptions \<Rightarrow> MethodBuilder \<Rightarrow> MethodBuilder" where
  "Method_SetOptions o' m = m\<lparr>method_options := Some o'\<rparr>"

definition AddMessage :: "MessageBuilder \<Rightarrow> FileBuilder \<Rightarrow> FileBuilder" where
  "AddMessage mb fb = fb\<lparr>file_messages := file_messages fb @ [mb]\<rparr>"

definition AddMethod :: "MethodBuilder \<Rightarrow> ServiceBuilder \<Rightarrow> ServiceBuilder" where
  "AddMethod m sb = sb\<lparr>service_methods := service_methods sb @ [m]\<rparr>"

section \<open>Outcomes of a call\<close>

text \<open>
  A call of the compiler returns, panics (a \<^verbatim>\<open>nil\<close> pointer is dereferenced) or never
  returns. The last case is the value \<open>None\<close>. A call that returns yields the error
  it returns (\<open>None\<close> for \<^verbatim>\<open>nil\<close>) and the two builders as it left them.
\<close>

datatype 'a outcome = Returned 'a | Panicked

type_synonym run = "(error option \<times> FileBuilder \<times> ServiceBuilder) outcome option"

section \<open>The path generator\<close>

text \<open>
  The loop of \<^verbatim>\<open>generateHTTPPath\<close>: \<^verbatim>\<open>for p != nil { elements = append(...); if
  len(p.Parents) == 0 { break } }\<close>. The body never assigns \<open>p\<close>.
\<close>

partial_function (option) generateHTTPPath_loop ::
  "ParsedResource option \<Rightarrow> string list \<Rightarrow> string list option" where
  "generateHTTPPath_loop p elements =
     (case p of
        None \<Rightarrow> Some elements
      | Some q \<Rightarrow>
          (let elements' = [ToLower (Plural q)] @ elements
           in if length (Parents q) = 0 then Some elements'
              else generateHTTPPath_loop p elements'))"

declare generateHTTPPath_loop.simps [code]

definition generateHTTPPath :: "ParsedResource \<Rightarrow> string option" where
  "generateHTTPPath r =
     (let elements = [ToLower (Plural r)]
      in case (if length (Parents r) > 0
               then generateHTTPPath_loop (Parents r ! 0) elements
               else Some elements) of
           None \<Rightarrow> None
         | Some elements' \<Rightarrow> Some (Join elements' ''/*/'' @ ''/*''))"

text \<open>
  \<^verbatim>\<open>generateParentHTTPPath\<close> calls \<^verbatim>\<open>generateHTTPPath(r.Parents[0])\<close>, whose first
  statement reads \<^verbatim>\<open>r.Plural\<close>: a \<^verbatim>\<open>nil\<close> first parent panics there.
\<close>

definition generateParentHTTPPath :: "ParsedResource \<Rightarrow> string outcome option" where
  "generateParentHTTPPath r =
     (case (if length (Parents r) > 0
            then (case Parents r ! 0 of
                    None \<Rightarrow> Some Panicked
                  | Some p \<Rightarrow> map_option Returned (generateHTTPPath p))
            else Some (Returned [])) of
        None \<Rightarrow> None
      | Some Panicked \<Rightarrow> Some Panicked
      | Some (Returned parentPath) \<Rightarrow>
          Some (Returned (''/{parent='' @ parentPath @ ToLower (Plural r) @ ''}'')))"

section \<open>The field helpers\<close>

definition addParentField :: "constants \<Rightarrow> ParsedResource \<Rightarrow> MessageBuilder \<Rightarrow> MessageBuilder" where
  "addParentField c r mb =
     (let o' = \<lparr>E_FieldBehavior = Some [FieldBehavior_REQUIRED],
                E_ResourceReference = Some \<lparr>reference_type = []\<rparr>\<rparr>;
          f = SetOptions o'
                (SetComments (''A field for the parent of '' @ Kind r)
                  (SetNumber (FIELD_PARENT_NUMBER c)
                    (NewField (FIELD_PARENT_NAME c) FieldTypeString)))
      in AddField f mb)"

text \<open>
  The format string of \<^verbatim>\<open>addIdField\<close> has no verb for its argument \<^verbatim>\<open>r.Kind\<close>, so
  \<^verbatim>\<open>fmt.Sprintf\<close> appends \<^verbatim>\<open>%!(EXTRA string=<kind>)\<close> to the comment.
\<close>

definition addIdField :: "constants \<Rightarrow> ParsedResource \<Rightarrow> MessageBuilder \<Rightarrow> MessageBuilder" where
  "addIdField c r mb =
     (let f = SetComments
                (''An id that uniquely identifies the resource within the collection''
                   @ ''%!(EXTRA string='' @ Kind r @ '')'')
                (SetNumber (FIELD_ID_NUMBER c) (NewField (FIELD_ID_NAME c) FieldTypeString))
      in AddField f mb)"

definition addPathField :: "constants \<Rightarrow> ParsedResource \<Rightarrow> MessageBuilder \<Rightarrow> MessageBuilder" where
  "addPathField c r mb =
     (let o' = \<lparr>E_FieldBehavior = Some [FieldBehavior_REQUIRED],
                E_ResourceReference = Some \<lparr>reference_type = Type_res r\<rparr>\<rparr>;
          f = SetOptions o'
                (SetComments ''The globally unique identifier for the resource''
                  (SetNumber (FIELD_PATH_NUMBER c)
                    (NewField (FIELD_PATH_NAME c) FieldTypeString)))
      in AddField f mb)"

definition addResourceField ::
  "constants \<Rightarrow> ParsedResource \<Rightarrow> MessageBuilder \<Rightarrow> MessageBuilder \<Rightarrow> MessageBuilder" where
  "addResourceField c r resourceMb mb =
     (let o' = \<lparr>E_FieldBehavior = Some [FieldBehavior_REQUIRED], E_ResourceReference = None\<rparr>;
          f = SetOptions o'
                (SetComments ''The resource to perform the operation on.''
                  (SetNumber (FIELD_RESOURCE_NUMBER c)
                    (NewField (ToLower (Kind r)) (FieldTypeMessage (message_name resourceMb)))))
      in AddField f mb)"

definition addResourcesField ::
  "constants \<Rightarrow> ParsedResource \<Rightarrow> MessageBuilder \<Rightarrow> MessageBuilder \<Rightarrow> MessageBuilder" where
  "addResourcesField c r resourceMb mb =
     (let f = SetRepeated
                (SetComments (''A list of '' @ Plural r)
                  (SetNumber (FIELD_RESOURCES_NUMBER c)
                    (NewField ''results'' (FieldTypeMessage (message_name resourceMb)))))
      in AddField f mb)"

definition addPageToken :: "constants \<Rightarrow> ParsedResource \<Rightarrow> MessageBuilder \<Rightarrow> MessageBuilder" where
  "addPageToken c r mb =
     (let f = SetComments ''The page token indicating the starting point of the page''
                (SetNumber (FIELD_PAGE_TOKEN_NUMBER c)
                  (NewField (FIELD_PAGE_TOKEN_NAME c) FieldTypeString))
      in AddField f mb)"

definition addNextPageToken :: "constants \<Rightarrow> ParsedResource \<Rightarrow> MessageBuilder \<Rightarrow> MessageBuilder" where
  "addNextPageToken c r mb =
     (let f = SetComments ''The page token indicating the ending point of this response.''
                (SetNumber (FIELD_NEXT_PAGE_TOKEN_NUMBER c)
                  (NewField (FIELD_NEXT_PAGE_TOKEN_NAME c) FieldTypeString))
      in AddField f mb)"

section \<open>The resource message\<close>

text \<open>
  The loop of \<^verbatim>\<open>GeneratedResourceMessage\<close> over the sorted fields. The switch on
  \<^verbatim>\<open>p.Type\<close> either chooses the field type or, in its default branch, leaves the function
  with an error; the message builder filled so far is dropped then.
\<close>

fun GeneratedResourceMessage_loop :: "Field list \<Rightarrow> MessageBuilder \<Rightarrow> error + MessageBuilder" where
  "GeneratedResourceMessage_loop [] mb = Inr mb"
| "GeneratedResourceMessage_loop (p # ps) mb =
     (case (case Type p of
              Type_STRING \<Rightarrow> Inr FieldTypeString
            | Type_INT32 \<Rightarrow> Inr FieldTypeInt32
            | Type_INT64 \<Rightarrow> Inr FieldTypeInt64
            | Type_BOOLEAN \<Rightarrow> Inr FieldTypeBool
            | Type_DOUBLE \<Rightarrow> Inr FieldTypeDouble
            | Type_FLOAT \<Rightarrow> Inr FieldTypeFloat
            | Type_UNMAPPED s \<Rightarrow>
                Inl (Error (''proto mapping for type '' @ s @ '' not found'') None)) of
        Inl err \<Rightarrow> Inl err
      | Inr typ \<Rightarrow>
          GeneratedResourceMessage_loop ps
            (AddField
               (SetComments (''Field for '' @ Name p @ ''.'')
                  (SetNumber (Number p) (NewField (Name p) typ)))
               mb))"

definition GeneratedResourceMessage :: "ParsedResource \<Rightarrow> error + MessageBuilder" where
  "GeneratedResourceMessage r =
     (case GeneratedResourceMessage_loop (GetFieldsSortedByNumber r) (NewMessage (Kind r)) of
        Inl err \<Rightarrow> Inl err
      | Inr mb \<Rightarrow> Inr (Message_SetOptions \<lparr>message_options_set = ()\<rparr> mb))"

section \<open>The per-method generators\<close>

definition AddCreate ::
  "constants \<Rightarrow> ParsedResource \<Rightarrow> MessageBuilder \<Rightarrow> FileBuilder \<Rightarrow> ServiceBuilder \<Rightarrow> run" where
  "AddCreate c r resourceMb fb sb =
     (let mb = NewMessage (''Create'' @ Kind r @ ''Request'');
          mb = Message_SetComments (''A Create request for a  '' @ Kind r @ '' resource.'') mb;
          mb = addParentField c r mb;
          mb = addIdField c r mb;
          mb = addResourceField c r resourceMb mb;
          fb = AddMessage mb fb;
          method = NewMethod (''Create'' @ Kind r)
                     (RpcTypeMessage (message_name mb) False)
                     (RpcTypeMessage (message_name resourceMb) False);
          method = Method_SetComments (''An aep-compliant Create method for '' @ Kind r @ ''.'') method
      in case generateParentHTTPPath r of
           None \<Rightarrow> None
         | Some Panicked \<Rightarrow> Some Panicked
         | Some (Returned path) \<Rightarrow>
             (let options =
                    \<lparr>E_Http = Some \<lparr>Pattern = HttpRule_Post path, Body = ToLower (Kind r)\<rparr>,
                     E_MethodSignature =
                       Some [Join [FIELD_PARENT_NAME c, ToLower (Kind r)] '','']\<rparr>;
                  method = Method_SetOptions options method;
                  sb = AddMethod method sb
              in Some (Returned (None, fb, sb))))"

definition AddGet ::
  "constants \<Rightarrow> ParsedResource \<Rightarrow> MessageBuilder \<Rightarrow> FileBuilder \<Rightarrow> ServiceBuilder \<Rightarrow> run" where
  "AddGet c r resourceMb fb sb =
     (let mb = NewMessage (''Get'' @ Kind r @ ''Request'');
          mb = Message_SetComments (''Request message for the Get'' @ Kind r @ '' method'') mb;
          mb = addPathField c r mb;
          fb = AddMessage mb fb;
          method = NewMethod (''Get'' @ Kind r)
                     (RpcTypeMessage (message_name mb) False)
                     (RpcTypeMessage (message_name resourceMb) False);
          method = Method_SetComments (''An aep-compliant Get method for '' @ Kind r @ ''.'') method
      in case generateHTTPPath r of
           None \<Rightarrow> None
         | Some path \<Rightarrow>
             (let options =
                    \<lparr>E_Http = Some \<lparr>Pattern = HttpRule_Get (''/{path='' @ path @ ''}''), Body = []\<rparr>,
                     E_MethodSignature = Some [Join [FIELD_PATH_NAME c] '','']\<rparr>;
                  method = Method_SetOptions options method;
                  sb = AddMethod method sb
              in Some (Returned (None, fb, sb))))"

text \<open>
  \<^verbatim>\<open>AddUpdate\<close> discards the error of the field-mask lookup
  (\<^verbatim>\<open>fieldMaskDescriptor, _ := ...\<close>) and uses the descriptor it got, \<^verbatim>\<open>nil\<close> or not.
\<close>

definition AddUpdate ::
  "constants \<Rightarrow> desc \<Rightarrow> ParsedResource \<Rightarrow> MessageBuilder \<Rightarrow> FileBuilder \<Rightarrow> ServiceBuilder \<Rightarrow> run" where
  "AddUpdate c d r resourceMb fb sb =
     (let mb = NewMessage (''Update'' @ Kind r @ ''Request'');
          mb = Message_SetComments (''Request message for the Update'' @ Kind r @ '' method'') mb;
          mb = addPathField c r mb;
          mb = addResourceField c r resourceMb mb;
          fieldMaskDescriptor = fst (LoadMessageDescriptorForType d ''fieldmaskpb.FieldMask'');
          mb = AddField
                 (SetComments ''The update mask for the resource''
                    (SetNumber (FIELD_UPDATE_MASK_NUMBER c)
                       (NewField (FIELD_UPDATE_MASK_NAME c)
                          (FieldTypeImportedMessage fieldMaskDescriptor))))
                 mb;
          fb = AddMessage mb fb;
          method = NewMethod (''Update'' @ Kind r)
                     (RpcTypeMessage (message_name mb) False)
                     (RpcTypeMessage (message_name resourceMb) False);
          method = Method_SetComments (''An aep-compliant Update method for '' @ Kind r @ ''.'') method
      in case generateHTTPPath r of
           None \<Rightarrow> None
         | Some path \<Rightarrow>
             (let options =
                    \<lparr>E_Http = Some \<lparr>Pattern = HttpRule_Patch
                                       (''/{'' @ ToLower (Kind r) @ ''.path='' @ path @ ''}''),
                                    Body = ToLower (Kind r)\<rparr>,
                     E_MethodSignature =
                       Some [Join [ToLower (Kind r), FIELD_UPDATE_MASK_NAME c] '','']\<rparr>;
                  method = Method_SetOptions options method;
                  sb = AddMethod method sb
              in Some (Returned (None, fb, sb))))"

text \<open>
  \<^verbatim>\<open>AddDelete\<close> registers its request message, then looks the empty message up and
  returns the lookup's error as it is.
\<close>

definition AddDelete ::
  "constants \<Rightarrow> desc \<Rightarrow> ParsedResource \<Rightarrow> MessageBuilder \<Rightarrow> FileBuilder \<Rightarrow> ServiceBuilder \<Rightarrow> run" where
  "AddDelete c d r resourceMb fb sb =
     (let mb = NewMessage (''Delete'' @ Kind r @ ''Request'');
          mb = Message_SetComments (''Request message for the Delete'' @ Kind r @ '' method'') mb;
          mb = addPathField c r mb;
          fb = AddMessage mb fb
      in case LoadMessageDescriptor d ''google.protobuf.Empty'' of
           (emptyMd, Some err) \<Rightarrow> Some (Returned (Some err, fb, sb))
         | (emptyMd, None) \<Rightarrow>
             (let method = NewMethod (''Delete'' @ Kind r)
                             (RpcTypeMessage (message_name mb) False)
                             (RpcTypeImportedMessage emptyMd False);
                  method = Method_SetComments
                             (''An aep-compliant Delete method for '' @ Kind r @ ''.'') method
              in case generateHTTPPath r of
                   None \<Rightarrow> None
                 | Some path \<Rightarrow>
                     (let options =
                            \<lparr>E_Http = Some \<lparr>Pattern = HttpRule_Delete (''/{path='' @ path @ ''}''),
                                            Body = []\<rparr>,
                             E_MethodSignature = Some [Join [FIELD_PATH_NAME c] '','']\<rparr>;
                          method = Method_SetOptions options method;
                          sb = AddMethod method sb
                      in Some (Returned (None, fb, sb)))))"

definition AddList ::
  "constants \<Rightarrow> ParsedResource \<Rightarrow> MessageBuilder \<Rightarrow> FileBuilder \<Rightarrow> ServiceBuilder \<Rightarrow> run" where
  "AddList c r resourceMb fb sb =
     (let reqMb = NewMessage (''List'' @ Kind r @ ''Request'');
          reqMb = Message_SetComments (''Request message for the List'' @ Kind r @ '' method'') reqMb;
          reqMb = addParentField c r reqMb;
          reqMb = addPageToken c r reqMb;
          reqMb = AddField
                    (SetComments ''The maximum number of resources to return in a single page.''
                       (SetNumber (FIELD_MAX_PAGE_SIZE_NUMBER c)
                          (NewField (FIELD_MAX_PAGE_SIZE_NAME c) FieldTypeInt32)))
                    reqMb;
          fb = AddMessage reqMb fb;
          respMb = NewMessage (''List'' @ Kind r @ ''Response'');
          respMb = Message_SetComments (''Response message for the List'' @ Kind r @ '' method'') respMb;
          respMb = addResourcesField c r resourceMb respMb;
          respMb = addNextPageToken c r respMb;
          fb = AddMessage respMb fb;
          method = NewMethod (''List'' @ Kind r)
                     (RpcTypeMessage (message_name reqMb) False)
                     (RpcTypeMessage (message_name respMb) False);
          method = Method_SetComments (''An aep-compliant List method for '' @ Plural r @ ''.'') method
      in case generateParentHTTPPath r of
           None \<Rightarrow> None
         | Some Panicked \<Rightarrow> Some Panicked
         | Some (Returned path) \<Rightarrow>
             (let options =
                    \<lparr>E_Http = Some \<lparr>Pattern = HttpRule_Get path, Body = []\<rparr>,
                     E_MethodSignature = Some [Join [FIELD_PARENT_NAME c] '','']\<rparr>;
                  method = Method_SetOptions options method;
                  sb = AddMethod method sb
              in Some (Returned (None, fb, sb))))"

definition AddGlobalList ::
  "constants \<Rightarrow> ParsedResource \<Rightarrow> MessageBuilder \<Rightarrow> FileBuilder \<Rightarrow> ServiceBuilder \<Rightarrow> run" where
  "AddGlobalList c r resourceMb fb sb =
     (let reqMb = NewMessage (''GlobalList'' @ Kind r @ ''Request'');
          reqMb = Message_SetComments
                    (''Request message for the GlobalList'' @ Kind r @ '' method'') reqMb;
          reqMb = addPathField c r reqMb;
          reqMb = addPageToken c r reqMb;
          fb = AddMessage reqMb fb;
          respMb = NewMessage (''GlobalList'' @ Kind r @ ''Response'');
          respMb = Message_SetComments
                     (''Response message for the GlobalList'' @ Kind r @ '' method'') respMb;
          respMb = addResourcesField c r resourceMb respMb;
          respMb = addNextPageToken c r respMb;
          fb = AddMessage respMb fb;
          method = NewMethod (''GlobalList'' @ Kind r)
                     (RpcTypeMessage (message_name reqMb) False)
                     (RpcTypeMessage (message_name respMb) False);
          options =
            \<lparr>E_Http = Some \<lparr>Pattern = HttpRule_Get (''/{path=--/'' @ ToLower (Kind r) @ ''}''),
                            Body = []\<rparr>,
             E_MethodSignature = None\<rparr>;
          method = Method_SetOptions options method;
          sb = AddMethod method sb
      in Some (Returned (None, fb, sb)))"

definition AddApply ::
  "constants \<Rightarrow> ParsedResource \<Rightarrow> MessageBuilder \<Rightarrow> FileBuilder \<Rightarrow> ServiceBuilder \<Rightarrow> run" where
  "AddApply c r resourceMb fb sb =
     (let mb = NewMessage (''Apply'' @ Kind r @ ''Request'');
          mb = Message_SetComments (''Request message for the Apply'' @ Kind r @ '' method'') mb;
          mb = addPathField c r mb;
          mb = addResourceField c r resourceMb mb;
          fb = AddMessage mb fb;
          method = NewMethod (''Apply'' @ Kind r)
                     (RpcTypeMessage (message_name mb) False)
                     (RpcTypeMessage (message_name resourceMb) False);
          method = Method_SetComments (''An aep-compliant Apply method for '' @ Plural r @ ''.'') method
      in case generateHTTPPath r of
           None \<Rightarrow> None
         | Some path \<Rightarrow>
             (let options =
                    \<lparr>E_Http = Some \<lparr>Pattern = HttpRule_Put (''/{path='' @ path @ ''}''),
                                    Body = ToLower (Kind r)\<rparr>,
                     E_MethodSignature = None\<rparr>;
                  method = Method_SetOptions options method;
                  sb = AddMethod method sb
              in Some (Returned (None, fb, sb))))"

section \<open>Compiling a resource\<close>

text \<open>
  \<^verbatim>\<open>AddResource\<close> runs the generators of the methods whose pointer is not \<^verbatim>\<open>nil\<close>, in
  a fixed order, each on the builders the previous one left. \<open>when_set\<close> is one
  \<^verbatim>\<open>if r.Methods.X != nil { err = AddX(...) }\<close>; \<open>and_then\<close> is the
  \<^verbatim>\<open>if err != nil { return err }\<close> that follows it.
\<close>

definition when_set ::
  "'a option \<Rightarrow> (FileBuilder \<Rightarrow> ServiceBuilder \<Rightarrow> run) \<Rightarrow> FileBuilder \<Rightarrow> ServiceBuilder \<Rightarrow> run" where
  "when_set m add fb sb = (if m \<noteq> None then add fb sb else Some (Returned (None, fb, sb)))"

fun and_then :: "run \<Rightarrow> (FileBuilder \<Rightarrow> ServiceBuilder \<Rightarrow> run) \<Rightarrow> run" where
  "and_then None k = None"
| "and_then (Some Panicked) k = Some Panicked"
| "and_then (Some (Returned (Some err, fb, sb))) k = Some (Returned (Some err, fb, sb))"
| "and_then (Some (Returned (None, fb, sb))) k = k fb sb"

definition AddResource ::
  "constants \<Rightarrow> desc \<Rightarrow> ParsedResource \<Rightarrow> FileBuilder \<Rightarrow> ServiceBuilder \<Rightarrow> run" where
  "AddResource c d r fb sb =
     (case GeneratedResourceMessage r of
        Inl err \<Rightarrow>
          Some (Returned
            (Some (Error (''unable to generate resource '' @ Kind r @ '': '' @ message err) (Some err)),
             fb, sb))
      | Inr resourceMb \<Rightarrow>
          (let resourceMb = Message_SetComments (''A '' @ Kind r @ '' resource.'') resourceMb;
               fb = AddMessage resourceMb fb
           in case Methods r of
                None \<Rightarrow> Some (Returned (None, fb, sb))
              | Some m \<Rightarrow>
                  and_then (when_set (Create m) (AddCreate c r resourceMb) fb sb) (\<lambda>fb sb.
                  and_then (when_set (Read m) (AddGet c r resourceMb) fb sb) (\<lambda>fb sb.
                  and_then (when_set (Update m) (AddUpdate c d r resourceMb) fb sb) (\<lambda>fb sb.
                  and_then (when_set (Delete m) (AddDelete c d r resourceMb) fb sb) (\<lambda>fb sb.
                  and_then (when_set (List m) (AddList c r resourceMb) fb sb) (\<lambda>fb sb.
                  and_then (when_set (GlobalList m) (AddGlobalList c r resourceMb) fb sb) (\<lambda>fb sb.
                  when_set (Apply m) (AddApply c r resourceMb) fb sb))))))))"

section \<open>Reading the builders\<close>

text \<open>
  \<^verbatim>\<open>builder.NewFile\<close> and \<^verbatim>\<open>builder.NewService\<close>: builders nothing was added to.
\<close>

definition NewFile :: FileBuilder where
  "NewFile = \<lparr>file_messages = []\<rparr>"

definition NewService :: ServiceBuilder where
  "NewService = \<lparr>service_methods = []\<rparr>"

text \<open>
  The HTTP bindings of a service: for each method that carries an HTTP rule, its name and
  the rule's pattern (verb and path).
\<close>

definition bindings :: "ServiceBuilder \<Rightarrow> (string \<times> HttpRule_Pattern) list" where
  "bindings sb =
     concat (map (\<lambda>m. case method_options m of
                         None \<Rightarrow> []
                       | Some opts \<Rightarrow>
                           (case E_Http opts of
                              None \<Rightarrow> []
                            | Some rule \<Rightarrow> [(method_name m, Pattern rule)]))
                 (service_methods sb))"

section \<open>Example resources\<close>

text \<open>
  Modelled from the spec: the package \<^verbatim>\<open>constants\<close> is missing. This table, used in the
  examples only, takes the names and the numbers of \<open>parent\<close>, \<open>id\<close> and \<open>path\<close> from
  the spec's reserved table (section 6); the numbers the spec leaves open are chosen here.
\<close>

definition example_constants :: constants where
  "example_constants =
     \<lparr>FIELD_PARENT_NAME = ''parent'', FIELD_PARENT_NUMBER = 1,
      FIELD_ID_NAME = ''id'', FIELD_ID_NUMBER = 2,
      FIELD_PATH_NAME = ''path'', FIELD_PATH_NUMBER = 1,
      FIELD_RESOURCE_NUMBER = 3,
      FIELD_RESOURCES_NUMBER = 4,
      FIELD_UPDATE_MASK_NAME = ''update_mask'', FIELD_UPDATE_MASK_NUMBER = 5,
      FIELD_PAGE_TOKEN_NAME = ''page_token'', FIELD_PAGE_TOKEN_NUMBER = 6,
      FIELD_MAX_PAGE_SIZE_NAME = ''max_page_size'', FIELD_MAX_PAGE_SIZE_NUMBER = 7,
      FIELD_NEXT_PAGE_TOKEN_NAME = ''next_page_token'', FIELD_NEXT_PAGE_TOKEN_NUMBER = 8\<rparr>"

text \<open>A registry in which both well-known descriptors are found, and one in which
  neither is.\<close>

definition full_registry :: desc where
  "full_registry =
     \<lparr>LoadMessageDescriptorForType =
        (\<lambda>n. (Some (MessageDescriptor ''google.protobuf.FieldMask''), None)),
      LoadMessageDescriptor = (\<lambda>n. (Some (MessageDescriptor n), None))\<rparr>"

definition empty_registry :: desc where
  "empty_registry =
     \<lparr>LoadMessageDescriptorForType =
        (\<lambda>n. (None, Some (Error (''no descriptor for '' @ n) None))),
      LoadMessageDescriptor =
        (\<lambda>n. (None, Some (Error (''no descriptor for '' @ n) None)))\<rparr>"

definition no_methods :: Methods where
  "no_methods =
     \<lparr>Create = None, Read = None, Update = None, Delete = None, List = None,
      GlobalList = None, Apply = None\<rparr>"

text \<open>The spec's first scenario: a book with no parent and the methods Create, Read
  and Delete.\<close>

definition Book :: ParsedResource where
  "Book =
     ParsedResource ''Book'' ''books'' ''bookstore.example.com/Book''
       [\<lparr>Name = ''isbn'', Type = Type_STRING, Number = 3\<rparr>]
       []
       (Some (no_methods\<lparr>Create := Some Method_Config, Read := Some Method_Config,
                          Delete := Some Method_Config\<rparr>))"

text \<open>The spec's second scenario: a shelf with no parent and a book under it, both with
  List.\<close>

definition Shelf :: ParsedResource where
  "Shelf =
     ParsedResource ''Shelf'' ''shelves'' ''bookstore.example.com/Shelf''
       [] [] (Some (no_methods\<lparr>List := Some Method_Config\<rparr>))"

definition Book_in_Shelf :: ParsedResource where
  "Book_in_Shelf =
     ParsedResource ''Book'' ''books'' ''bookstore.example.com/Book''
       [\<lparr>Name = ''isbn'', Type = Type_STRING, Number = 3\<rparr>]
       [Some Shelf]
       (Some (no_methods\<lparr>List := Some Method_Config\<rparr>))"

text \<open>The chain of the spec's path example: a store, a shelf in it, a book on the
  shelf.\<close>

definition Store :: ParsedResource where
  "Store = ParsedResource ''Store'' ''stores'' ''bookstore.example.com/Store'' [] [] None"

definition Shelf_in_Store :: ParsedResource where
  "Shelf_in_Store =
     ParsedResource ''Shelf'' ''shelves'' ''bookstore.example.com/Shelf'' [] [Some Store] None"

definition Book_in_Shelf_in_Store :: ParsedResource where
  "Book_in_Shelf_in_Store =
     ParsedResource ''Book'' ''books'' ''bookstore.example.com/Book''
       [\<lparr>Name = ''isbn'', Type = Type_STRING, Number = 3\<rparr>]
       [Some Shelf_in_Store]
       (Some (no_methods\<lparr>Read := Some Method_Config\<rparr>))"


section \<open>Supported field types\<close>

text \<open>A field type is mapped when the switch of \<^verbatim>\<open>GeneratedResourceMessage\<close> has a
  case for it.\<close>

definition mapped :: "schema_Type \<Rightarrow> bool" where
  "mapped t = (case t of Type_UNMAPPED s \<Rightarrow> False | _ \<Rightarrow> True)"



section \<open>Method kinds and what the spec prescribes for them\<close>

text \<open>
  The definitions of this section follow the words of the spec, not the source: the seven
  method kinds, the name of the RPC and the messages the spec's table (section 4.2) gives
  each kind, and the reserved numbers of the structural fields (section 6). The theorems
  compare them with what \<^verbatim>\<open>AddResource\<close> registers.
\<close>

datatype method_kind = M_Create | M_Read | M_Update | M_Delete | M_List | M_GlobalList | M_Apply

text \<open>The order in which \<^verbatim>\<open>AddResource\<close> visits the method kinds.\<close>

definition all_method_kinds :: "method_kind list" where
  "all_method_kinds = [M_Create, M_Read, M_Update, M_Delete, M_List, M_GlobalList, M_Apply]"

fun method_pointer :: "Methods \<Rightarrow> method_kind \<Rightarrow> Method_Config option" where
  "method_pointer m M_Create = Create m"
| "method_pointer m M_Read = Read m"
| "method_pointer m M_Update = Update m"
| "method_pointer m M_Delete = Delete m"
| "method_pointer m M_List = List m"
| "method_pointer m M_GlobalList = GlobalList m"
| "method_pointer m M_Apply = Apply m"

definition enabled :: "ParsedResource \<Rightarrow> method_kind \<Rightarrow> bool" where
  "enabled r M = (case Methods r of None \<Rightarrow> False | Some m \<Rightarrow> method_pointer m M \<noteq> None)"

fun prescribed_rpc :: "string \<Rightarrow> method_kind \<Rightarrow> string" where
  "prescribed_rpc k M_Create = ''Create'' @ k"
| "prescribed_rpc k M_Read = ''Get'' @ k"
| "prescribed_rpc k M_Update = ''Update'' @ k"
| "prescribed_rpc k M_Delete = ''Delete'' @ k"
| "prescribed_rpc k M_List = ''List'' @ k"
| "prescribed_rpc k M_GlobalList = ''GlobalList'' @ k"
| "prescribed_rpc k M_Apply = ''Apply'' @ k"

text \<open>The signature of a message: its name and the name and number of each field.\<close>

type_synonym message_signature = "string \<times> (string \<times> 32 word) list"

definition message_sig :: "MessageBuilder \<Rightarrow> message_signature" where
  "message_sig mb = (message_name mb, map (\<lambda>f. (field_name f, field_number f)) (message_fields mb))"

text \<open>
  Which messages a method kind has (a request; for the two list methods a request and a
  response), and which structural fields each of them holds, in order.
\<close>

fun message_names :: "string \<Rightarrow> method_kind \<Rightarrow> string list" where
  "message_names k M_Create = [''Create'' @ k @ ''Request'']"
| "message_names k M_Read = [''Get'' @ k @ ''Request'']"
| "message_names k M_Update = [''Update'' @ k @ ''Request'']"
| "message_names k M_Delete = [''Delete'' @ k @ ''Request'']"
| "message_names k M_List = [''List'' @ k @ ''Request'', ''List'' @ k @ ''Response'']"
| "message_names k M_GlobalList =
     [''GlobalList'' @ k @ ''Request'', ''GlobalList'' @ k @ ''Response'']"
| "message_names k M_Apply = [''Apply'' @ k @ ''Request'']"

datatype structural_field =
    F_parent | F_id | F_path | F_resource | F_results | F_update_mask
  | F_page_token | F_max_page_size | F_next_page_token

fun layout :: "method_kind \<Rightarrow> structural_field list list" where
  "layout M_Create = [[F_parent, F_id, F_resource]]"
| "layout M_Read = [[F_path]]"
| "layout M_Update = [[F_path, F_resource, F_update_mask]]"
| "layout M_Delete = [[F_path]]"
| "layout M_List = [[F_parent, F_page_token, F_max_page_size], [F_results, F_next_page_token]]"
| "layout M_GlobalList = [[F_path, F_page_token], [F_results, F_next_page_token]]"
| "layout M_Apply = [[F_path, F_resource]]"

text \<open>
  The reserved number of a structural field (the spec's section 6): a constant of the
  table, whatever the resource. The embedded resource is named after the lower-cased kind
  and the repeated results field is named \<^verbatim>\<open>results\<close>; the other names are constants too.
\<close>

fun reserved_number :: "constants \<Rightarrow> structural_field \<Rightarrow> 32 word" where
  "reserved_number c F_parent = FIELD_PARENT_NUMBER c"
| "reserved_number c F_id = FIELD_ID_NUMBER c"
| "reserved_number c F_path = FIELD_PATH_NUMBER c"
| "reserved_number c F_resource = FIELD_RESOURCE_NUMBER c"
| "reserved_number c F_results = FIELD_RESOURCES_NUMBER c"
| "reserved_number c F_update_mask = FIELD_UPDATE_MASK_NUMBER c"
| "reserved_number c F_page_token = FIELD_PAGE_TOKEN_NUMBER c"
| "reserved_number c F_max_page_size = FIELD_MAX_PAGE_SIZE_NUMBER c"
| "reserved_number c F_next_page_token = FIELD_NEXT_PAGE_TOKEN_NUMBER c"

fun structural_name :: "constants \<Rightarrow> string \<Rightarrow> structural_field \<Rightarrow> string" where
  "structural_name c k F_parent = FIELD_PARENT_NAME c"
| "structural_name c k F_id = FIELD_ID_NAME c"
| "structural_name c k F_path = FIELD_PATH_NAME c"
| "structural_name c k F_resource = ToLower k"
| "structural_name c k F_results = ''results''"
| "structural_name c k F_update_mask = FIELD_UPDATE_MASK_NAME c"
| "structural_name c k F_page_token = FIELD_PAGE_TOKEN_NAME c"
| "structural_name c k F_max_page_size = FIELD_MAX_PAGE_SIZE_NAME c"
| "structural_name c k F_next_page_token = FIELD_NEXT_PAGE_TOKEN_NAME c"

definition prescribed_messages :: "constants \<Rightarrow> string \<Rightarrow> method_kind \<Rightarrow> message_signature list" where
  "prescribed_messages c k M =
     zip (message_names k M)
         (map (map (\<lambda>F. (structural_name c k F, reserved_number c F))) (layout M))"

text \<open>
  A resource is shallow when its chain of first parents has depth at most 1 and the first
  parent, if there is one, is not \<^verbatim>\<open>nil\<close>.
\<close>

definition shallow :: "ParsedResource \<Rightarrow> bool" where
  "shallow r =
     (case Parents r of
        [] \<Rightarrow> True
      | None # ps \<Rightarrow> False
      | Some p # ps \<Rightarrow> Parents p = [])"

section \<open>Reading the outcome of a call\<close>

text \<open>
  \<open>yields res fb sb err sigs names\<close>: the call returned \<open>err\<close> and left the builders
  \<open>fb\<close> and \<open>sb\<close> extended by messages with the signatures \<open>sigs\<close> and methods with
  the names \<open>names\<close>.
\<close>

definition yields ::
  "run \<Rightarrow> FileBuilder \<Rightarrow> ServiceBuilder \<Rightarrow> error option \<Rightarrow> message_signature list \<Rightarrow> string list \<Rightarrow> bool" where
  "yields res fb sb err sigs names =
     (\<exists>ms ns. res = Some (Returned (err, fb\<lparr>file_messages := file_messages fb @ ms\<rparr>,
                                   sb\<lparr>service_methods := service_methods sb @ ns\<rparr>)) \<and>
              map message_sig ms = sigs \<and> map method_name ns = names)"

text \<open>
  A signature is structural when its fields are, in order, the structural fields of one
  row of the layout, each with its name and its reserved number. \<open>registers_only P res fb\<close>:
  if the call returned, the file builder is \<open>fb\<close> followed by messages that all satisfy
  \<open>P\<close>.
\<close>

definition structural_signature :: "constants \<Rightarrow> string \<Rightarrow> message_signature \<Rightarrow> bool" where
  "structural_signature c k s =
     (\<exists>M\<in>set all_method_kinds. \<exists>row\<in>set (layout M).
        snd s = map (\<lambda>F. (structural_name c k F, reserved_number c F)) row)"

definition registers_only :: "(MessageBuilder \<Rightarrow> bool) \<Rightarrow> run \<Rightarrow> FileBuilder \<Rightarrow> bool" where
  "registers_only P res fb =
     (case res of
        Some (Returned (err, fb', sb')) \<Rightarrow>
          take (length (file_messages fb)) (file_messages fb') = file_messages fb \<and>
          list_all P (drop (length (file_messages fb)) (file_messages fb'))
      | _ \<Rightarrow> True)"







section \<open>The path generator: what it returns and when\<close>

lemma generateHTTPPath_loop_nil: "generateHTTPPath_loop None es = Some es"
  by (simp add: generateHTTPPath_loop.simps)

lemma generateHTTPPath_loop_leaf:
  "Parents q = [] \<Longrightarrow> generateHTTPPath_loop (Some q) es = Some (ToLower (Plural q) # es)"
  by (subst generateHTTPPath_loop.simps) simp

text \<open>
  The loop returns only through its \<^verbatim>\<open>break\<close> or when \<open>p\<close> is \<^verbatim>\<open>nil\<close> at its head:
  whenever it returns on a parent that is not \<^verbatim>\<open>nil\<close>, that parent has no parents.
\<close>

lemma generateHTTPPath_loop_Some_leaf:
  assumes "generateHTTPPath_loop p es = Some y"
  shows "case p of None \<Rightarrow> True | Some q \<Rightarrow> Parents q = []"
  using assms
proof (induction rule: generateHTTPPath_loop.raw_induct [rotated, consumes 1])
  case (1 loop p es y)
  show ?case
  proof (cases p)
    case None
    then show ?thesis by simp
  next
    case (Some q)
    show ?thesis
    proof (cases "Parents q = []")
      case True
      with Some show ?thesis by simp
    next
      case False
      with Some "1.hyps" have "loop (Some q) ([ToLower (Plural q)] @ es) = Some y"
        by (simp add: Let_def)
      from "1.IH" [OF this] Some show ?thesis by simp
    qed
  qed
qed

lemma generateHTTPPath_loop_never_returns:
  assumes "Parents q \<noteq> []"
  shows "generateHTTPPath_loop (Some q) es = None"
proof (cases "generateHTTPPath_loop (Some q) es")
  case None
  then show ?thesis .
next
  case (Some y)
  from generateHTTPPath_loop_Some_leaf [OF Some] assms show ?thesis by simp
qed

lemma generateHTTPPath_no_parents:
  "Parents r = [] \<Longrightarrow> generateHTTPPath r = Some (ToLower (Plural r) @ ''/*'')"
  by (simp add: generateHTTPPath_def)

lemma generateHTTPPath_nil_parent:
  "Parents r = None # ps \<Longrightarrow> generateHTTPPath r = Some (ToLower (Plural r) @ ''/*'')"
  by (simp add: generateHTTPPath_def generateHTTPPath_loop_nil)

lemma generateHTTPPath_one_parent:
  "Parents r = Some p # ps \<Longrightarrow> Parents p = [] \<Longrightarrow>
   generateHTTPPath r = Some (ToLower (Plural p) @ ''/*/'' @ ToLower (Plural r) @ ''/*'')"
  by (simp add: generateHTTPPath_def generateHTTPPath_loop_leaf)

lemma generateHTTPPath_grandparent:
  "Parents r = Some p # ps \<Longrightarrow> Parents p \<noteq> [] \<Longrightarrow> generateHTTPPath r = None"
  by (simp add: generateHTTPPath_def generateHTTPPath_loop_never_returns)

text \<open>
  Together: \<^verbatim>\<open>generateHTTPPath\<close> returns exactly on the resources that have no parents, a
  \<^verbatim>\<open>nil\<close> first parent, or a first parent without parents.
\<close>

lemma generateHTTPPath_returns_iff:
  "(\<exists>path. generateHTTPPath r = Some path) =
     (case Parents r of
        [] \<Rightarrow> True
      | None # ps \<Rightarrow> True
      | Some p # ps \<Rightarrow> Parents p = [])"
proof (cases "Parents r")
  case Nil
  then show ?thesis by (simp add: generateHTTPPath_no_parents)
next
  case (Cons first ps)
  show ?thesis
  proof (cases first)
    case None
    with Cons show ?thesis by (simp add: generateHTTPPath_nil_parent)
  next
    case (Some p)
    show ?thesis
    proof (cases "Parents p = []")
      case True
      with Cons Some show ?thesis by (simp add: generateHTTPPath_one_parent)
    next
      case False
      with Cons Some show ?thesis by (simp add: generateHTTPPath_grandparent)
    qed
  qed
qed



text \<open>
  Claim C1. For a resource whose chain of first parents has depth \<open>d\<close>, the collection
  path should have \<open>d + 1\<close> segments, from the outermost ancestor to the resource:
  \<^verbatim>\<open>stores/*/shelves/*/books/*\<close> for a book on a shelf in a store. The loop of
  \<^verbatim>\<open>generateHTTPPath\<close> never moves from the first parent to that parent's parent, so
  on this chain of depth 2 it prepends \<^verbatim>\<open>shelves\<close> for ever: the call does not return,
  and neither does the compilation of a resource that has a Read method.
\<close>

theorem generateHTTPPath_depth_two_never_returns:
  "generateHTTPPath Book_in_Shelf_in_Store = None \<and>
   generateHTTPPath Book_in_Shelf_in_Store \<noteq> Some ''stores/*/shelves/*/books/*'' \<and>
   AddResource example_constants full_registry Book_in_Shelf_in_Store NewFile NewService = None"
proof -
  have parents: "Parents Book_in_Shelf_in_Store = Some Shelf_in_Store # []"
    by (simp add: Book_in_Shelf_in_Store_def)
  have grand: "Parents Shelf_in_Store \<noteq> []"
    by (simp add: Shelf_in_Store_def)
  have path: "generateHTTPPath Book_in_Shelf_in_Store = None"
    by (rule generateHTTPPath_grandparent [OF parents grand])
  have "AddResource example_constants full_registry Book_in_Shelf_in_Store NewFile NewService = None"
    by (simp add: AddResource_def AddGet_def when_set_def path Let_def
          GeneratedResourceMessage_def GetFieldsSortedByNumber_def no_methods_def
          Book_in_Shelf_in_Store_def [THEN arg_cong [where f = Fields]]
          Book_in_Shelf_in_Store_def [THEN arg_cong [where f = Methods]]
          Book_in_Shelf_in_Store_def [THEN arg_cong [where f = Kind]])
  with path show ?thesis by simp
qed

text \<open>
  Claim C2. For the book under a shelf the List binding should be
  \<^verbatim>\<open>/{parent=shelves/*/books}\<close>. \<^verbatim>\<open>generateParentHTTPPath\<close> formats the parent's
  collection path and the plural with \<^verbatim>\<open>"/{parent=%v%v}"\<close>, with nothing between the two:
  the binding the compiler registers is \<^verbatim>\<open>/{parent=shelves/*books}\<close>.
\<close>

theorem ListBook_binding_without_separator:
  "generateHTTPPath Shelf = Some ''shelves/*'' \<and>
   generateParentHTTPPath Book_in_Shelf = Some (Returned ''/{parent=shelves/*books}'') \<and>
   (case AddResource example_constants full_registry Book_in_Shelf NewFile NewService of
      Some (Returned (err, fb, sb)) \<Rightarrow>
        err = None \<and> bindings sb = [(''ListBook'', HttpRule_Get ''/{parent=shelves/*books}'')]
    | _ \<Rightarrow> False)"
  by code_simp




section \<open>The resource message\<close>

lemma GeneratedResourceMessage_loop_mapped:
  assumes "\<forall>p\<in>set ps. mapped (Type p)"
  shows "\<exists>fs. GeneratedResourceMessage_loop ps mb = Inr (mb\<lparr>message_fields := message_fields mb @ fs\<rparr>) \<and>
               map (\<lambda>f. (field_name f, field_number f)) fs = map (\<lambda>p. (Name p, Number p)) ps"
  using assms
proof (induction ps arbitrary: mb)
  case Nil
  then show ?case by simp
next
  case (Cons p ps)
  from Cons.prems have m: "mapped (Type p)" and rest: "\<forall>p\<in>set ps. mapped (Type p)"
    by simp_all
  define f where "f ty = SetComments (''Field for '' @ Name p @ ''.'') (SetNumber (Number p) (NewField (Name p) ty))" for ty
  have sig: "field_name (f ty) = Name p" "field_number (f ty) = Number p" for ty
    by (simp_all add: f_def SetComments_def SetNumber_def NewField_def)
  from m obtain ty where step:
    "GeneratedResourceMessage_loop (p # ps) mb = GeneratedResourceMessage_loop ps (AddField (f ty) mb)"
    by (cases "Type p") (simp_all add: mapped_def f_def)
  from Cons.IH [OF rest, of "AddField (f ty) mb"] obtain fs where
    fs: "GeneratedResourceMessage_loop ps (AddField (f ty) mb) =
           Inr (AddField (f ty) mb\<lparr>message_fields := message_fields (AddField (f ty) mb) @ fs\<rparr>)"
        "map (\<lambda>f. (field_name f, field_number f)) fs = map (\<lambda>p. (Name p, Number p)) ps"
    by blast
  have "GeneratedResourceMessage_loop (p # ps) mb =
          Inr (mb\<lparr>message_fields := message_fields mb @ f ty # fs\<rparr>)"
    unfolding step fs(1) by (simp add: AddField_def)
  moreover have "map (\<lambda>f. (field_name f, field_number f)) (f ty # fs) =
          map (\<lambda>p. (Name p, Number p)) (p # ps)"
    by (simp add: fs(2) sig)
  ultimately show ?case
    by blast
qed


lemma set_GetFieldsSortedByNumber: "set (GetFieldsSortedByNumber r) = set (Fields r)"
  by (simp add: GetFieldsSortedByNumber_def)





section \<open>What the generators register\<close>

lemma shallow_generateHTTPPath: "shallow r \<Longrightarrow> \<exists>path. generateHTTPPath r = Some path"
  by (auto simp: shallow_def generateHTTPPath_no_parents generateHTTPPath_one_parent
        split: list.splits option.splits)

lemma shallow_generateParentHTTPPath:
  "shallow r \<Longrightarrow> \<exists>path. generateParentHTTPPath r = Some (Returned path)"
  by (auto simp: shallow_def generateParentHTTPPath_def generateHTTPPath_no_parents
        split: list.splits option.splits)

lemmas builder_defs =
  AddMessage_def AddMethod_def AddField_def NewMessage_def NewMethod_def NewField_def
  SetNumber_def SetComments_def SetOptions_def SetRepeated_def
  Message_SetComments_def Message_SetOptions_def Method_SetComments_def Method_SetOptions_def

lemmas helper_defs =
  addParentField_def addIdField_def addPathField_def addResourceField_def
  addResourcesField_def addPageToken_def addNextPageToken_def

lemma FileBuilder_append_eq:
  "(fb\<lparr>file_messages := file_messages fb @ xs\<rparr> = fb\<lparr>file_messages := file_messages fb @ ys\<rparr>) = (xs = ys)"
  by (cases fb) simp

lemma ServiceBuilder_append_eq:
  "(sb\<lparr>service_methods := service_methods sb @ xs\<rparr> = sb\<lparr>service_methods := service_methods sb @ ys\<rparr>) = (xs = ys)"
  by (cases sb) simp

lemmas yields_simps =
  yields_def Let_def builder_defs helper_defs message_sig_def prescribed_messages_def
  FileBuilder_append_eq ServiceBuilder_append_eq

lemma yieldsE:
  assumes "yields res fb sb err sigs names"
  obtains ms ns where
    "res = Some (Returned (err, fb\<lparr>file_messages := file_messages fb @ ms\<rparr>,
                            sb\<lparr>service_methods := service_methods sb @ ns\<rparr>))"
    "map message_sig ms = sigs" "map method_name ns = names"
  using assms unfolding yields_def by blast

lemma AddCreate_yields:
  assumes "generateParentHTTPPath r = Some (Returned path)"
  shows "yields (AddCreate c r resourceMb fb sb) fb sb None
           (prescribed_messages c (Kind r) M_Create) [prescribed_rpc (Kind r) M_Create]"
  by (simp add: AddCreate_def assms yields_simps)

lemma AddGet_yields:
  assumes "generateHTTPPath r = Some path"
  shows "yields (AddGet c r resourceMb fb sb) fb sb None
           (prescribed_messages c (Kind r) M_Read) [prescribed_rpc (Kind r) M_Read]"
  by (simp add: AddGet_def assms yields_simps)

lemma AddUpdate_yields:
  assumes "generateHTTPPath r = Some path"
  shows "yields (AddUpdate c d r resourceMb fb sb) fb sb None
           (prescribed_messages c (Kind r) M_Update) [prescribed_rpc (Kind r) M_Update]"
  by (simp add: AddUpdate_def assms yields_simps)

lemma AddDelete_yields:
  assumes "generateHTTPPath r = Some path"
    and "snd (LoadMessageDescriptor d ''google.protobuf.Empty'') = None"
  shows "yields (AddDelete c d r resourceMb fb sb) fb sb None
           (prescribed_messages c (Kind r) M_Delete) [prescribed_rpc (Kind r) M_Delete]"
  using assms(2)
  by (cases "LoadMessageDescriptor d ''google.protobuf.Empty''")
     (simp add: AddDelete_def assms(1) yields_simps)

lemma AddDelete_fails:
  assumes "snd (LoadMessageDescriptor d ''google.protobuf.Empty'') = Some err"
  shows "yields (AddDelete c d r resourceMb fb sb) fb sb (Some err)
           (prescribed_messages c (Kind r) M_Delete) []"
  using assms
  by (cases "LoadMessageDescriptor d ''google.protobuf.Empty''")
     (simp add: AddDelete_def yields_simps)

lemma AddList_yields:
  assumes "generateParentHTTPPath r = Some (Returned path)"
  shows "yields (AddList c r resourceMb fb sb) fb sb None
           (prescribed_messages c (Kind r) M_List) [prescribed_rpc (Kind r) M_List]"
  by (simp add: AddList_def assms yields_simps)

lemma AddGlobalList_yields:
  "yields (AddGlobalList c r resourceMb fb sb) fb sb None
           (prescribed_messages c (Kind r) M_GlobalList) [prescribed_rpc (Kind r) M_GlobalList]"
  by (simp add: AddGlobalList_def yields_simps)

lemma AddApply_yields:
  assumes "generateHTTPPath r = Some path"
  shows "yields (AddApply c r resourceMb fb sb) fb sb None
           (prescribed_messages c (Kind r) M_Apply) [prescribed_rpc (Kind r) M_Apply]"
  by (simp add: AddApply_def assms yields_simps)

lemma yields_when_set:
  assumes "m \<noteq> None \<Longrightarrow> yields (add fb sb) fb sb None sigs names"
  shows "yields (when_set m add fb sb) fb sb None
           (if m \<noteq> None then sigs else []) (if m \<noteq> None then names else [])"
proof (cases "m = None")
  case True
  then show ?thesis by (simp add: when_set_def yields_def)
next
  case False
  with assms show ?thesis by (simp add: when_set_def)
qed

lemma yields_and_then:
  assumes "yields res fb sb None sigs names"
    and "\<And>fb' sb'. yields (k fb' sb') fb' sb' err sigs' names'"
  shows "yields (and_then res k) fb sb err (sigs @ sigs') (names @ names')"
proof -
  from assms(1) obtain ms ns where
    res: "res = Some (Returned (None, fb\<lparr>file_messages := file_messages fb @ ms\<rparr>,
                                 sb\<lparr>service_methods := service_methods sb @ ns\<rparr>))"
    and sigs: "map message_sig ms = sigs" and names: "map method_name ns = names"
    unfolding yields_def by blast
  let ?fb = "fb\<lparr>file_messages := file_messages fb @ ms\<rparr>"
  let ?sb = "sb\<lparr>service_methods := service_methods sb @ ns\<rparr>"
  from assms(2) [of ?fb ?sb] obtain ms' ns' where
    k: "k ?fb ?sb = Some (Returned (err, ?fb\<lparr>file_messages := file_messages ?fb @ ms'\<rparr>,
                                 ?sb\<lparr>service_methods := service_methods ?sb @ ns'\<rparr>))"
    and sigs': "map message_sig ms' = sigs'" and names': "map method_name ns' = names'"
    unfolding yields_def by blast
  show ?thesis
    unfolding yields_def
    by (intro exI [where x = "ms @ ms'"] exI [where x = "ns @ ns'"])
       (simp add: res k sigs sigs' names names')
qed

lemma yields_and_then_error:
  assumes "yields res fb sb (Some err) sigs names"
  shows "yields (and_then res k) fb sb (Some err) sigs names"
proof -
  from assms obtain ms ns where
    res: "res = Some (Returned (Some err, fb\<lparr>file_messages := file_messages fb @ ms\<rparr>,
                                 sb\<lparr>service_methods := service_methods sb @ ns\<rparr>))"
    and sigs: "map message_sig ms = sigs" "map method_name ns = names"
    unfolding yields_def by blast
  show ?thesis
    unfolding yields_def
    by (intro exI [where x = ms] exI [where x = ns]) (simp add: res sigs)
qed

lemma yields_after_AddMessage:
  assumes "yields res (AddMessage mb fb) sb err sigs names"
  shows "yields res fb sb err (message_sig mb # sigs) names"
proof -
  from assms obtain ms ns where
    res: "res = Some (Returned (err,
                   AddMessage mb fb\<lparr>file_messages := file_messages (AddMessage mb fb) @ ms\<rparr>,
                   sb\<lparr>service_methods := service_methods sb @ ns\<rparr>))"
    and sigs: "map message_sig ms = sigs" "map method_name ns = names"
    unfolding yields_def by blast
  show ?thesis
    unfolding yields_def
    by (intro exI [where x = "mb # ms"] exI [where x = ns]) (simp add: res sigs AddMessage_def)
qed

lemma GeneratedResourceMessage_mapped:
  assumes "\<forall>p\<in>set (Fields r). mapped (Type p)"
  shows "\<exists>mb. GeneratedResourceMessage r = Inr mb \<and>
           message_sig mb =
             (Kind r, map (\<lambda>p. (Name p, Number p)) (GetFieldsSortedByNumber r))"
proof -
  from assms have "\<forall>p\<in>set (GetFieldsSortedByNumber r). mapped (Type p)"
    by (simp add: set_GetFieldsSortedByNumber)
  from GeneratedResourceMessage_loop_mapped [OF this, of "NewMessage (Kind r)"]
  obtain fs where
    run: "GeneratedResourceMessage_loop (GetFieldsSortedByNumber r) (NewMessage (Kind r)) =
            Inr (NewMessage (Kind r)\<lparr>message_fields := message_fields (NewMessage (Kind r)) @ fs\<rparr>)"
    and sig: "map (\<lambda>f. (field_name f, field_number f)) fs =
                map (\<lambda>p. (Name p, Number p)) (GetFieldsSortedByNumber r)"
    by blast
  show ?thesis
    unfolding GeneratedResourceMessage_def run
    by (simp add: message_sig_def Message_SetOptions_def NewMessage_def sig)
qed

lemma message_sig_SetComments: "message_sig (Message_SetComments s mb) = message_sig mb"
  by (simp add: message_sig_def Message_SetComments_def)

lemma concat_map_filter_Cons:
  "concat (map f (filter P (x # xs))) = (if P x then f x else []) @ concat (map f (filter P xs))"
  by simp

lemma map_filter_Cons:
  "map g (filter P (x # xs)) = (if P x then [g x] else []) @ map g (filter P xs)"
  by simp

text \<open>The generators of the methods before Delete, in the order of AddResource.\<close>

lemma first_generators_yield:
  assumes path: "generateHTTPPath r = Some path"
    and parent: "generateParentHTTPPath r = Some (Returned ppath)"
    and rest: "\<And>fb' sb'. yields (k fb' sb') fb' sb' err sigs names"
  shows "yields
           (and_then (when_set (Create m) (AddCreate c r rmb) fb sb) (\<lambda>fb sb.
            and_then (when_set (Read m) (AddGet c r rmb) fb sb) (\<lambda>fb sb.
            and_then (when_set (Update m) (AddUpdate c d r rmb) fb sb) k)))
           fb sb err
           ((if Create m \<noteq> None then prescribed_messages c (Kind r) M_Create else []) @
            (if Read m \<noteq> None then prescribed_messages c (Kind r) M_Read else []) @
            (if Update m \<noteq> None then prescribed_messages c (Kind r) M_Update else []) @ sigs)
           ((if Create m \<noteq> None then [prescribed_rpc (Kind r) M_Create] else []) @
            (if Read m \<noteq> None then [prescribed_rpc (Kind r) M_Read] else []) @
            (if Update m \<noteq> None then [prescribed_rpc (Kind r) M_Update] else []) @ names)"
  by (intro yields_and_then yields_when_set AddCreate_yields [OF parent]
        AddGet_yields [OF path] AddUpdate_yields [OF path] rest)

lemma last_generators_yield:
  assumes path: "generateHTTPPath r = Some path"
    and parent: "generateParentHTTPPath r = Some (Returned ppath)"
  shows "yields
           (and_then (when_set (List m) (AddList c r rmb) fb sb) (\<lambda>fb sb.
            and_then (when_set (GlobalList m) (AddGlobalList c r rmb) fb sb) (\<lambda>fb sb.
            when_set (Apply m) (AddApply c r rmb) fb sb)))
           fb sb None
           ((if List m \<noteq> None then prescribed_messages c (Kind r) M_List else []) @
            (if GlobalList m \<noteq> None then prescribed_messages c (Kind r) M_GlobalList else []) @
            (if Apply m \<noteq> None then prescribed_messages c (Kind r) M_Apply else []))
           ((if List m \<noteq> None then [prescribed_rpc (Kind r) M_List] else []) @
            (if GlobalList m \<noteq> None then [prescribed_rpc (Kind r) M_GlobalList] else []) @
            (if Apply m \<noteq> None then [prescribed_rpc (Kind r) M_Apply] else []))"
  by (intro yields_and_then yields_when_set AddList_yields [OF parent]
        AddGlobalList_yields AddApply_yields [OF path])

lemma AddResource_yields:
  assumes fields: "\<forall>p\<in>set (Fields r). mapped (Type p)"
    and shallow: "shallow r"
    and empty: "enabled r M_Delete \<longrightarrow> snd (LoadMessageDescriptor d ''google.protobuf.Empty'') = None"
  shows "yields (AddResource c d r fb sb) fb sb None
           ((Kind r, map (\<lambda>p. (Name p, Number p)) (GetFieldsSortedByNumber r)) #
            concat (map (prescribed_messages c (Kind r)) (filter (enabled r) all_method_kinds)))
           (map (prescribed_rpc (Kind r)) (filter (enabled r) all_method_kinds))"
proof -
  from GeneratedResourceMessage_mapped [OF fields] obtain mb where
    mb: "GeneratedResourceMessage r = Inr mb"
    and sig: "message_sig mb = (Kind r, map (\<lambda>p. (Name p, Number p)) (GetFieldsSortedByNumber r))"
    by blast
  from shallow_generateHTTPPath [OF shallow] obtain path where
    path: "generateHTTPPath r = Some path" ..
  from shallow_generateParentHTTPPath [OF shallow] obtain ppath where
    parent: "generateParentHTTPPath r = Some (Returned ppath)" ..
  define rmb where "rmb = Message_SetComments (''A '' @ Kind r @ '' resource.'') mb"
  have rsig: "message_sig rmb = (Kind r, map (\<lambda>p. (Name p, Number p)) (GetFieldsSortedByNumber r))"
    by (simp add: rmb_def message_sig_SetComments sig)
  show ?thesis
  proof (cases "Methods r")
    case None
    have "yields (AddResource c d r fb sb) (AddMessage rmb fb) sb None [] []"
      by (simp add: AddResource_def mb None Let_def rmb_def yields_def)
    from yields_after_AddMessage [OF this] show ?thesis
      by (simp add: rsig enabled_def None)
  next
    case (Some m)
    have en: "enabled r M = (method_pointer m M \<noteq> None)" for M
      by (simp add: enabled_def Some)
    have delete: "yields (when_set (Delete m) (AddDelete c d r rmb) fb' sb') fb' sb' None
        (if Delete m \<noteq> None then prescribed_messages c (Kind r) M_Delete else [])
        (if Delete m \<noteq> None then [prescribed_rpc (Kind r) M_Delete] else [])" for fb' sb'
      using empty by (intro yields_when_set AddDelete_yields [OF path]) (simp add: en)
    have "yields (AddResource c d r fb sb) (AddMessage rmb fb) sb None
        ((if Create m \<noteq> None then prescribed_messages c (Kind r) M_Create else []) @
         (if Read m \<noteq> None then prescribed_messages c (Kind r) M_Read else []) @
         (if Update m \<noteq> None then prescribed_messages c (Kind r) M_Update else []) @
         (if Delete m \<noteq> None then prescribed_messages c (Kind r) M_Delete else []) @
         (if List m \<noteq> None then prescribed_messages c (Kind r) M_List else []) @
         (if GlobalList m \<noteq> None then prescribed_messages c (Kind r) M_GlobalList else []) @
         (if Apply m \<noteq> None then prescribed_messages c (Kind r) M_Apply else []))
        ((if Create m \<noteq> None then [prescribed_rpc (Kind r) M_Create] else []) @
         (if Read m \<noteq> None then [prescribed_rpc (Kind r) M_Read] else []) @
         (if Update m \<noteq> None then [prescribed_rpc (Kind r) M_Update] else []) @
         (if Delete m \<noteq> None then [prescribed_rpc (Kind r) M_Delete] else []) @
         (if List m \<noteq> None then [prescribed_rpc (Kind r) M_List] else []) @
         (if GlobalList m \<noteq> None then [prescribed_rpc (Kind r) M_GlobalList] else []) @
         (if Apply m \<noteq> None then [prescribed_rpc (Kind r) M_Apply] else []))"
      unfolding AddResource_def mb sum.case Let_def Some option.case rmb_def [symmetric]
      by (intro first_generators_yield [OF path parent] yields_and_then delete
            last_generators_yield [OF path parent])
    note chain = yields_after_AddMessage [OF this]
    have sigs: "concat (map (prescribed_messages c (Kind r)) (filter (enabled r) all_method_kinds)) =
         (if Create m \<noteq> None then prescribed_messages c (Kind r) M_Create else []) @
         (if Read m \<noteq> None then prescribed_messages c (Kind r) M_Read else []) @
         (if Update m \<noteq> None then prescribed_messages c (Kind r) M_Update else []) @
         (if Delete m \<noteq> None then prescribed_messages c (Kind r) M_Delete else []) @
         (if List m \<noteq> None then prescribed_messages c (Kind r) M_List else []) @
         (if GlobalList m \<noteq> None then prescribed_messages c (Kind r) M_GlobalList else []) @
         (if Apply m \<noteq> None then prescribed_messages c (Kind r) M_Apply else [])"
      unfolding all_method_kinds_def concat_map_filter_Cons en method_pointer.simps by simp
    have names: "map (prescribed_rpc (Kind r)) (filter (enabled r) all_method_kinds) =
         (if Create m \<noteq> None then [prescribed_rpc (Kind r) M_Create] else []) @
         (if Read m \<noteq> None then [prescribed_rpc (Kind r) M_Read] else []) @
         (if Update m \<noteq> None then [prescribed_rpc (Kind r) M_Update] else []) @
         (if Delete m \<noteq> None then [prescribed_rpc (Kind r) M_Delete] else []) @
         (if List m \<noteq> None then [prescribed_rpc (Kind r) M_List] else []) @
         (if GlobalList m \<noteq> None then [prescribed_rpc (Kind r) M_GlobalList] else []) @
         (if Apply m \<noteq> None then [prescribed_rpc (Kind r) M_Apply] else [])"
      unfolding all_method_kinds_def map_filter_Cons en method_pointer.simps by simp
    from chain show ?thesis
      unfolding sigs names rsig .
  qed
qed

lemma map_fst_prescribed_messages:
  "map fst (prescribed_messages c k M) = message_names k M"
  by (cases M) (simp_all add: prescribed_messages_def)

lemma numbers_prescribed_messages:
  "map (\<lambda>s. map snd (snd s)) (prescribed_messages c k M) = map (map (reserved_number c)) (layout M)"
  by (cases M) (simp_all add: prescribed_messages_def)

lemma message_name_sig: "message_name mb = fst (message_sig mb)"
  by (simp add: message_sig_def)

lemma field_numbers_sig: "map field_number (message_fields mb) = map snd (snd (message_sig mb))"
  by (simp add: message_sig_def comp_def)


lemma shallow_Book: "shallow Book"
  by (simp add: shallow_def Book_def)

lemma mapped_Book: "\<forall>p\<in>set (Fields Book). mapped (Type p)"
  by (simp add: Book_def mapped_def)




text \<open>
  What a generator that returned tells about the resource, and how an error leaves
  \<^verbatim>\<open>AddResource\<close>.
\<close>

lemma AddCreate_returned:
  assumes "AddCreate c r rmb fb sb = Some (Returned (e, fb1, sb1))"
  shows "e = None \<and> (\<exists>path. generateParentHTTPPath r = Some (Returned path))"
  using assms by (auto simp: AddCreate_def Let_def split: option.splits outcome.splits)

lemma AddGet_returned:
  assumes "AddGet c r rmb fb sb = Some (Returned (e, fb1, sb1))"
  shows "e = None \<and> (\<exists>path. generateHTTPPath r = Some path)"
  using assms by (auto simp: AddGet_def Let_def split: option.splits)

lemma AddUpdate_returned:
  assumes "AddUpdate c d r rmb fb sb = Some (Returned (e, fb1, sb1))"
  shows "e = None \<and> (\<exists>path. generateHTTPPath r = Some path)"
  using assms by (auto simp: AddUpdate_def Let_def split: option.splits)

lemma AddDelete_returned:
  assumes "AddDelete c d r rmb fb sb = Some (Returned (Some e, fb1, sb1))"
  shows "snd (LoadMessageDescriptor d ''google.protobuf.Empty'') = Some e"
  using assms by (auto simp: AddDelete_def Let_def split: option.splits prod.splits)

lemma AddList_returned:
  assumes "AddList c r rmb fb sb = Some (Returned (e, fb1, sb1))"
  shows "e = None"
  using assms by (auto simp: AddList_def Let_def split: option.splits outcome.splits)

lemma AddGlobalList_returned:
  assumes "AddGlobalList c r rmb fb sb = Some (Returned (e, fb1, sb1))"
  shows "e = None"
  using assms by (auto simp: AddGlobalList_def Let_def)

lemma AddApply_returned:
  assumes "AddApply c r rmb fb sb = Some (Returned (e, fb1, sb1))"
  shows "e = None"
  using assms by (auto simp: AddApply_def Let_def split: option.splits)

lemma and_then_error_cases:
  assumes "and_then res k = Some (Returned (Some err, fb', sb'))"
  obtains (here) "res = Some (Returned (Some err, fb', sb'))"
  | (later) fb1 sb1 where "res = Some (Returned (None, fb1, sb1))"
      and "k fb1 sb1 = Some (Returned (Some err, fb', sb'))"
proof (cases res)
  case None
  with assms show ?thesis by simp
next
  case (Some out)
  show ?thesis
  proof (cases out)
    case Panicked
    with Some assms show ?thesis by simp
  next
    case (Returned x)
    obtain e fb1 sb1 where x: "x = (e, fb1, sb1)"
      by (cases x)
    show ?thesis
    proof (cases e)
      case None
      with Some Returned x assms show ?thesis
        by (intro later [of fb1 sb1]) simp_all
    next
      case (Some e')
      with \<open>res = Some out\<close> Returned x assms show ?thesis
        by (intro here) simp
    qed
  qed
qed

lemma when_set_returned:
  assumes "when_set m add fb sb = Some (Returned x)"
  shows "(m = None \<and> x = (None, fb, sb)) \<or> (m \<noteq> None \<and> add fb sb = Some (Returned x))"
  using assms by (auto simp: when_set_def split: if_splits)

lemma first_generators_yield_if_enabled:
  assumes parent: "Create m \<noteq> None \<Longrightarrow> generateParentHTTPPath r = Some (Returned ppath)"
    and path: "Read m \<noteq> None \<or> Update m \<noteq> None \<Longrightarrow> generateHTTPPath r = Some path"
    and rest: "\<And>fb' sb'. yields (k fb' sb') fb' sb' err sigs names"
  shows "yields
           (and_then (when_set (Create m) (AddCreate c r rmb) fb sb) (\<lambda>fb sb.
            and_then (when_set (Read m) (AddGet c r rmb) fb sb) (\<lambda>fb sb.
            and_then (when_set (Update m) (AddUpdate c d r rmb) fb sb) k)))
           fb sb err
           ((if Create m \<noteq> None then prescribed_messages c (Kind r) M_Create else []) @
            (if Read m \<noteq> None then prescribed_messages c (Kind r) M_Read else []) @
            (if Update m \<noteq> None then prescribed_messages c (Kind r) M_Update else []) @ sigs)
           ((if Create m \<noteq> None then [prescribed_rpc (Kind r) M_Create] else []) @
            (if Read m \<noteq> None then [prescribed_rpc (Kind r) M_Read] else []) @
            (if Update m \<noteq> None then [prescribed_rpc (Kind r) M_Update] else []) @ names)"
  by (intro yields_and_then yields_when_set AddCreate_yields AddGet_yields AddUpdate_yields rest)
     (simp_all add: parent path)

lemma Delete_error_outcome:
  assumes mb: "GeneratedResourceMessage r = Inr mb"
    and m: "Methods r = Some m"
    and dm: "Delete m \<noteq> None"
    and empty: "snd (LoadMessageDescriptor d ''google.protobuf.Empty'') = Some err"
    and parent: "Create m \<noteq> None \<longrightarrow> (\<exists>ppath. generateParentHTTPPath r = Some (Returned ppath))"
    and path: "Read m \<noteq> None \<or> Update m \<noteq> None \<longrightarrow> (\<exists>path. generateHTTPPath r = Some path)"
  shows "\<exists>ms ns.
           AddResource c d r fb sb =
             Some (Returned (Some err,
               fb\<lparr>file_messages := file_messages fb @
                      Message_SetComments (''A '' @ Kind r @ '' resource.'') mb # ms\<rparr>,
               sb\<lparr>service_methods := service_methods sb @ ns\<rparr>)) \<and>
           map message_name ms =
             concat (map (message_names (Kind r)) (filter (enabled r) [M_Create, M_Read, M_Update])) @
             message_names (Kind r) M_Delete \<and>
           map method_name ns =
             map (prescribed_rpc (Kind r)) (filter (enabled r) [M_Create, M_Read, M_Update])"
proof -
  obtain ppath where parent': "Create m \<noteq> None \<Longrightarrow> generateParentHTTPPath r = Some (Returned ppath)"
    using parent by (cases "Create m = None") auto
  obtain p where path': "Read m \<noteq> None \<or> Update m \<noteq> None \<Longrightarrow> generateHTTPPath r = Some p"
    using path by (cases "Read m \<noteq> None \<or> Update m \<noteq> None") auto
  define rmb where "rmb = Message_SetComments (''A '' @ Kind r @ '' resource.'') mb"
  have en: "enabled r M = (method_pointer m M \<noteq> None)" for M
    by (simp add: enabled_def m)
  have fail: "yields (and_then (when_set (Delete m) (AddDelete c d r rmb) fb' sb') k) fb' sb'
      (Some err) (prescribed_messages c (Kind r) M_Delete) []" for fb' sb' k
    using dm by (intro yields_and_then_error) (simp add: when_set_def AddDelete_fails [OF empty])
  have "yields (AddResource c d r fb sb) (AddMessage rmb fb) sb (Some err)
      ((if Create m \<noteq> None then prescribed_messages c (Kind r) M_Create else []) @
       (if Read m \<noteq> None then prescribed_messages c (Kind r) M_Read else []) @
       (if Update m \<noteq> None then prescribed_messages c (Kind r) M_Update else []) @
       prescribed_messages c (Kind r) M_Delete)
      ((if Create m \<noteq> None then [prescribed_rpc (Kind r) M_Create] else []) @
       (if Read m \<noteq> None then [prescribed_rpc (Kind r) M_Read] else []) @
       (if Update m \<noteq> None then [prescribed_rpc (Kind r) M_Update] else []) @ [])"
    unfolding AddResource_def mb sum.case Let_def m option.case rmb_def [symmetric]
    by (intro first_generators_yield_if_enabled [OF parent' path'] fail)
  then obtain ms ns where
    res: "AddResource c d r fb sb =
            Some (Returned (Some err,
              AddMessage rmb fb\<lparr>file_messages := file_messages (AddMessage rmb fb) @ ms\<rparr>,
              sb\<lparr>service_methods := service_methods sb @ ns\<rparr>))"
    and sigs: "map message_sig ms =
       (if Create m \<noteq> None then prescribed_messages c (Kind r) M_Create else []) @
       (if Read m \<noteq> None then prescribed_messages c (Kind r) M_Read else []) @
       (if Update m \<noteq> None then prescribed_messages c (Kind r) M_Update else []) @
       prescribed_messages c (Kind r) M_Delete"
    and names: "map method_name ns =
       (if Create m \<noteq> None then [prescribed_rpc (Kind r) M_Create] else []) @
       (if Read m \<noteq> None then [prescribed_rpc (Kind r) M_Read] else []) @
       (if Update m \<noteq> None then [prescribed_rpc (Kind r) M_Update] else []) @ []"
    by (rule yieldsE)
  have res': "AddResource c d r fb sb =
            Some (Returned (Some err,
              fb\<lparr>file_messages := file_messages fb @ rmb # ms\<rparr>,
              sb\<lparr>service_methods := service_methods sb @ ns\<rparr>))"
    unfolding res by (simp add: AddMessage_def)
  have "map message_name ms = map fst (map message_sig ms)"
    by (simp add: message_name_sig)
  also have "\<dots> =
      concat (map (message_names (Kind r)) (filter (enabled r) [M_Create, M_Read, M_Update])) @
      message_names (Kind r) M_Delete"
    unfolding sigs concat_map_filter_Cons en method_pointer.simps
    by (simp add: map_fst_prescribed_messages)
  finally have msn: "map message_name ms =
      concat (map (message_names (Kind r)) (filter (enabled r) [M_Create, M_Read, M_Update])) @
      message_names (Kind r) M_Delete" .
  have nsn: "map method_name ns =
      map (prescribed_rpc (Kind r)) (filter (enabled r) [M_Create, M_Read, M_Update])"
    unfolding names map_filter_Cons en method_pointer.simps by simp
  show ?thesis
    by (intro exI [where x = ms] exI [where x = ns] conjI res' [unfolded rmb_def] msn nsn)
qed

text \<open>
  Claim C10. \<^verbatim>\<open>AddResource\<close> registers the resource message before it runs a generator,
  and it undoes nothing. Whenever the resource message is generated and \<^verbatim>\<open>AddResource\<close>
  returns an error, Delete is enabled and the error is the one of the empty-message lookup
  of its generator; the file builder then holds what it held, the resource message, the
  messages of the enabled kinds among Create, Read and Update, and the Delete request; the
  service builder holds in addition the RPCs of the enabled kinds among Create, Read and
  Update.
\<close>

theorem error_of_Delete_leaves_registrations:
  assumes mb: "GeneratedResourceMessage r = Inr resourceMb"
    and res: "AddResource c d r fb sb = Some (Returned (Some err, fb', sb'))"
  shows "enabled r M_Delete \<and>
         snd (LoadMessageDescriptor d ''google.protobuf.Empty'') = Some err \<and>
         (\<exists>ms ns.
            fb' = fb\<lparr>file_messages := file_messages fb @
                        Message_SetComments (''A '' @ Kind r @ '' resource.'') resourceMb # ms\<rparr> \<and>
            sb' = sb\<lparr>service_methods := service_methods sb @ ns\<rparr> \<and>
            map message_name ms =
              concat (map (message_names (Kind r)) (filter (enabled r) [M_Create, M_Read, M_Update])) @
              message_names (Kind r) M_Delete \<and>
            map method_name ns =
              map (prescribed_rpc (Kind r)) (filter (enabled r) [M_Create, M_Read, M_Update]))"
proof -
  define rmb where "rmb = Message_SetComments (''A '' @ Kind r @ '' resource.'') resourceMb"
  obtain m where m: "Methods r = Some m"
    using res by (cases "Methods r") (simp_all add: AddResource_def mb Let_def)
  note chain = res [unfolded AddResource_def mb sum.case Let_def m option.case rmb_def [symmetric]]
  from chain obtain fb1 sb1 where
    s1: "when_set (Create m) (AddCreate c r rmb) (AddMessage rmb fb) sb = Some (Returned (None, fb1, sb1))"
    and k1: "and_then (when_set (Read m) (AddGet c r rmb) fb1 sb1) (\<lambda>fb sb.
             and_then (when_set (Update m) (AddUpdate c d r rmb) fb sb) (\<lambda>fb sb.
             and_then (when_set (Delete m) (AddDelete c d r rmb) fb sb) (\<lambda>fb sb.
             and_then (when_set (List m) (AddList c r rmb) fb sb) (\<lambda>fb sb.
             and_then (when_set (GlobalList m) (AddGlobalList c r rmb) fb sb) (\<lambda>fb sb.
             when_set (Apply m) (AddApply c r rmb) fb sb))))) = Some (Returned (Some err, fb', sb'))"
    by (cases rule: and_then_error_cases) (auto dest!: when_set_returned AddCreate_returned)
  from k1 obtain fb2 sb2 where
    s2: "when_set (Read m) (AddGet c r rmb) fb1 sb1 = Some (Returned (None, fb2, sb2))"
    and k2: "and_then (when_set (Update m) (AddUpdate c d r rmb) fb2 sb2) (\<lambda>fb sb.
             and_then (when_set (Delete m) (AddDelete c d r rmb) fb sb) (\<lambda>fb sb.
             and_then (when_set (List m) (AddList c r rmb) fb sb) (\<lambda>fb sb.
             and_then (when_set (GlobalList m) (AddGlobalList c r rmb) fb sb) (\<lambda>fb sb.
             when_set (Apply m) (AddApply c r rmb) fb sb)))) = Some (Returned (Some err, fb', sb'))"
    by (cases rule: and_then_error_cases) (auto dest!: when_set_returned AddGet_returned)
  from k2 obtain fb3 sb3 where
    s3: "when_set (Update m) (AddUpdate c d r rmb) fb2 sb2 = Some (Returned (None, fb3, sb3))"
    and k3: "and_then (when_set (Delete m) (AddDelete c d r rmb) fb3 sb3) (\<lambda>fb sb.
             and_then (when_set (List m) (AddList c r rmb) fb sb) (\<lambda>fb sb.
             and_then (when_set (GlobalList m) (AddGlobalList c r rmb) fb sb) (\<lambda>fb sb.
             when_set (Apply m) (AddApply c r rmb) fb sb))) = Some (Returned (Some err, fb', sb'))"
    by (cases rule: and_then_error_cases) (auto dest!: when_set_returned AddUpdate_returned)
  have tail: False
    if "and_then (when_set (List m) (AddList c r rmb) fb4 sb4) (\<lambda>fb sb.
        and_then (when_set (GlobalList m) (AddGlobalList c r rmb) fb sb) (\<lambda>fb sb.
        when_set (Apply m) (AddApply c r rmb) fb sb)) = Some (Returned (Some err, fb', sb'))"
    for fb4 sb4
    using that
  proof (cases rule: and_then_error_cases)
    case here
    then show False by (auto dest!: when_set_returned AddList_returned)
  next
    case (later fb5 sb5)
    from later(2) show False
    proof (cases rule: and_then_error_cases)
      case here
      then show False by (auto dest!: when_set_returned AddGlobalList_returned)
    next
      case (later fb6 sb6)
      then show False by (auto dest!: when_set_returned AddApply_returned)
    qed
  qed
  from k3 have s4: "when_set (Delete m) (AddDelete c d r rmb) fb3 sb3 = Some (Returned (Some err, fb', sb'))"
    by (cases rule: and_then_error_cases) (auto dest: tail)
  from when_set_returned [OF s4] have dm: "Delete m \<noteq> None"
    and del: "AddDelete c d r rmb fb3 sb3 = Some (Returned (Some err, fb', sb'))"
    by auto
  from AddDelete_returned [OF del] have empty:
    "snd (LoadMessageDescriptor d ''google.protobuf.Empty'') = Some err" .
  have parent: "Create m \<noteq> None \<longrightarrow> (\<exists>ppath. generateParentHTTPPath r = Some (Returned ppath))"
    using when_set_returned [OF s1] by (auto dest: AddCreate_returned)
  have path: "Read m \<noteq> None \<or> Update m \<noteq> None \<longrightarrow> (\<exists>path. generateHTTPPath r = Some path)"
    using when_set_returned [OF s2] when_set_returned [OF s3]
    by (auto dest: AddGet_returned AddUpdate_returned)
  from Delete_error_outcome [OF mb m dm empty parent path, of c fb sb] obtain ms ns where
    out: "AddResource c d r fb sb =
             Some (Returned (Some err,
               fb\<lparr>file_messages := file_messages fb @
                      Message_SetComments (''A '' @ Kind r @ '' resource.'') resourceMb # ms\<rparr>,
               sb\<lparr>service_methods := service_methods sb @ ns\<rparr>))"
    and msn: "map message_name ms =
             concat (map (message_names (Kind r)) (filter (enabled r) [M_Create, M_Read, M_Update])) @
             message_names (Kind r) M_Delete"
    and nsn: "map method_name ns =
             map (prescribed_rpc (Kind r)) (filter (enabled r) [M_Create, M_Read, M_Update])"
    by (elim exE conjE) (rule that)
  from out res have fb': "fb' = fb\<lparr>file_messages := file_messages fb @
                      Message_SetComments (''A '' @ Kind r @ '' resource.'') resourceMb # ms\<rparr>"
    and sb': "sb' = sb\<lparr>service_methods := service_methods sb @ ns\<rparr>"
    by simp_all
  have en: "enabled r M_Delete"
    by (simp add: enabled_def m dm)
  show ?thesis
    by (intro conjI en empty exI [where x = ms] exI [where x = ns] fb' sb' msn nsn)
qed

theorem error_of_Delete_leaves_registrations_Book:
  "\<exists>resourceMb fb' sb'.
     GeneratedResourceMessage Book = Inr resourceMb \<and>
     AddResource example_constants empty_registry Book NewFile NewService =
       Some (Returned (Some (Error ''no descriptor for google.protobuf.Empty'' None), fb', sb')) \<and>
     enabled Book M_Delete \<and>
     snd (LoadMessageDescriptor empty_registry ''google.protobuf.Empty'') =
       Some (Error ''no descriptor for google.protobuf.Empty'' None) \<and>
     (\<exists>ms ns.
        fb' = NewFile\<lparr>file_messages := file_messages NewFile @
                        Message_SetComments ''A Book resource.'' resourceMb # ms\<rparr> \<and>
        sb' = NewService\<lparr>service_methods := service_methods NewService @ ns\<rparr> \<and>
        map message_name ms = [''CreateBookRequest'', ''GetBookRequest'', ''DeleteBookRequest''] \<and>
        map method_name ns = [''CreateBook'', ''GetBook''])"
proof -
  define err where "err = Error ''no descriptor for google.protobuf.Empty'' None"
  from GeneratedResourceMessage_mapped [OF mapped_Book] obtain mb where
    mb: "GeneratedResourceMessage Book = Inr mb"
    by (elim exE conjE)
  define m where "m = no_methods\<lparr>Create := Some Method_Config, Read := Some Method_Config,
                                  Delete := Some Method_Config\<rparr>"
  have methods: "Methods Book = Some m"
    by (simp add: Book_def m_def)
  have dm: "Delete m \<noteq> None"
    by (simp add: m_def)
  have empty: "snd (LoadMessageDescriptor empty_registry ''google.protobuf.Empty'') = Some err"
    by (simp add: empty_registry_def err_def)
  have parent: "Create m \<noteq> None \<longrightarrow> (\<exists>ppath. generateParentHTTPPath Book = Some (Returned ppath))"
    using shallow_generateParentHTTPPath [OF shallow_Book] by simp
  have path: "Read m \<noteq> None \<or> Update m \<noteq> None \<longrightarrow> (\<exists>path. generateHTTPPath Book = Some path)"
    using shallow_generateHTTPPath [OF shallow_Book] by simp
  from Delete_error_outcome [OF mb methods dm empty parent path, of example_constants NewFile NewService]
  obtain fb' sb' where
    res: "AddResource example_constants empty_registry Book NewFile NewService =
            Some (Returned (Some err, fb', sb'))"
    by (elim exE conjE)
  have kind: "''A '' @ Kind Book @ '' resource.'' = ''A Book resource.''"
    by (simp add: Book_def)
  have msgs: "concat (map (message_names (Kind Book)) (filter (enabled Book) [M_Create, M_Read, M_Update])) @
      message_names (Kind Book) M_Delete =
      [''CreateBookRequest'', ''GetBookRequest'', ''DeleteBookRequest'']"
    by code_simp
  have rpcs: "map (prescribed_rpc (Kind Book)) (filter (enabled Book) [M_Create, M_Read, M_Update]) =
      [''CreateBook'', ''GetBook'']"
    by code_simp
  note claim = error_of_Delete_leaves_registrations [OF mb res, unfolded msgs rpcs kind]
  show ?thesis
    by (intro exI [where x = mb] exI [where x = fb'] exI [where x = sb'] conjI
          mb res [unfolded err_def] claim [unfolded err_def, THEN conjunct1]
          claim [unfolded err_def, THEN conjunct2, THEN conjunct1]
          claim [unfolded err_def, THEN conjunct2, THEN conjunct2])
qed





section \<open>The numbers of the structural fields\<close>

lemma structural_prescribed:
  "s \<in> set (prescribed_messages c k M) \<Longrightarrow> structural_signature c k s"
  by (cases M)
     (auto simp: prescribed_messages_def all_method_kinds_def structural_signature_def)

lemma yields_registers_only:
  assumes "yields res fb sb err sigs names" and "\<And>s. s \<in> set sigs \<Longrightarrow> Q s"
  shows "registers_only (\<lambda>mb. Q (message_sig mb)) res fb"
proof -
  from assms(1) obtain ms ns where
    res: "res = Some (Returned (err, fb\<lparr>file_messages := file_messages fb @ ms\<rparr>,
                                 sb\<lparr>service_methods := service_methods sb @ ns\<rparr>))"
    and sigs: "map message_sig ms = sigs"
    by (rule yieldsE)
  have "Q (message_sig mb)" if "mb \<in> set ms" for mb
    using that assms(2) [of "message_sig mb"] sigs by auto
  then show ?thesis
    by (simp add: registers_only_def res list_all_iff)
qed

lemma registers_only_None: "registers_only P None fb"
  and registers_only_Panicked: "registers_only P (Some Panicked) fb"
  by (simp_all add: registers_only_def)

lemma registers_only_generator:
  assumes "res = None \<or> res = Some Panicked \<or> (\<exists>err names. yields res fb sb err (prescribed_messages c k M) names)"
  shows "registers_only (\<lambda>mb. structural_signature c k (message_sig mb)) res fb"
  using assms
  by (auto simp: registers_only_None registers_only_Panicked
        intro: yields_registers_only structural_prescribed)

lemma AddCreate_outcome:
  "AddCreate c r rmb fb sb = None \<or> AddCreate c r rmb fb sb = Some Panicked \<or>
   (\<exists>err names. yields (AddCreate c r rmb fb sb) fb sb err (prescribed_messages c (Kind r) M_Create) names)"
proof (cases "generateParentHTTPPath r")
  case None
  then show ?thesis by (simp add: AddCreate_def Let_def)
next
  case (Some out)
  then show ?thesis
  proof (cases out)
    case Panicked
    with Some show ?thesis by (simp add: AddCreate_def Let_def)
  next
    case (Returned path)
    with Some AddCreate_yields show ?thesis by blast
  qed
qed

lemma AddList_outcome:
  "AddList c r rmb fb sb = None \<or> AddList c r rmb fb sb = Some Panicked \<or>
   (\<exists>err names. yields (AddList c r rmb fb sb) fb sb err (prescribed_messages c (Kind r) M_List) names)"
proof (cases "generateParentHTTPPath r")
  case None
  then show ?thesis by (simp add: AddList_def Let_def)
next
  case (Some out)
  then show ?thesis
  proof (cases out)
    case Panicked
    with Some show ?thesis by (simp add: AddList_def Let_def)
  next
    case (Returned path)
    with Some AddList_yields show ?thesis by blast
  qed
qed

lemma AddGet_outcome:
  "AddGet c r rmb fb sb = None \<or> AddGet c r rmb fb sb = Some Panicked \<or>
   (\<exists>err names. yields (AddGet c r rmb fb sb) fb sb err (prescribed_messages c (Kind r) M_Read) names)"
proof (cases "generateHTTPPath r")
  case None
  then show ?thesis by (simp add: AddGet_def Let_def)
next
  case (Some path)
  with AddGet_yields show ?thesis by blast
qed

lemma AddUpdate_outcome:
  "AddUpdate c d r rmb fb sb = None \<or> AddUpdate c d r rmb fb sb = Some Panicked \<or>
   (\<exists>err names. yields (AddUpdate c d r rmb fb sb) fb sb err (prescribed_messages c (Kind r) M_Update) names)"
proof (cases "generateHTTPPath r")
  case None
  then show ?thesis by (simp add: AddUpdate_def Let_def)
next
  case (Some path)
  with AddUpdate_yields show ?thesis by blast
qed

lemma AddApply_outcome:
  "AddApply c r rmb fb sb = None \<or> AddApply c r rmb fb sb = Some Panicked \<or>
   (\<exists>err names. yields (AddApply c r rmb fb sb) fb sb err (prescribed_messages c (Kind r) M_Apply) names)"
proof (cases "generateHTTPPath r")
  case None
  then show ?thesis by (simp add: AddApply_def Let_def)
next
  case (Some path)
  with AddApply_yields show ?thesis by blast
qed

lemma AddGlobalList_outcome:
  "AddGlobalList c r rmb fb sb = None \<or> AddGlobalList c r rmb fb sb = Some Panicked \<or>
   (\<exists>err names. yields (AddGlobalList c r rmb fb sb) fb sb err
      (prescribed_messages c (Kind r) M_GlobalList) names)"
  using AddGlobalList_yields by blast

lemma AddDelete_outcome:
  "AddDelete c d r rmb fb sb = None \<or> AddDelete c d r rmb fb sb = Some Panicked \<or>
   (\<exists>err names. yields (AddDelete c d r rmb fb sb) fb sb err (prescribed_messages c (Kind r) M_Delete) names)"
proof (cases "snd (LoadMessageDescriptor d ''google.protobuf.Empty'')")
  case (Some err)
  from AddDelete_fails [OF this] show ?thesis by blast
next
  case None
  show ?thesis
  proof (cases "generateHTTPPath r")
    case no_path: None
    from None show ?thesis
      by (cases "LoadMessageDescriptor d ''google.protobuf.Empty''")
         (simp add: AddDelete_def Let_def no_path)
  next
    case (Some path)
    from AddDelete_yields [OF this None] show ?thesis by blast
  qed
qed

lemmas registers_only_generators =
  registers_only_generator [OF AddCreate_outcome]
  registers_only_generator [OF AddGet_outcome]
  registers_only_generator [OF AddUpdate_outcome]
  registers_only_generator [OF AddDelete_outcome]
  registers_only_generator [OF AddList_outcome]
  registers_only_generator [OF AddGlobalList_outcome]
  registers_only_generator [OF AddApply_outcome]

lemma registers_only_when_set:
  assumes "registers_only P (add fb sb) fb"
  shows "registers_only P (when_set m add fb sb) fb"
  using assms by (simp add: when_set_def registers_only_def)

lemma registers_only_and_then:
  assumes "registers_only P res fb"
    and "\<And>fb' sb'. registers_only P (k fb' sb') fb'"
  shows "registers_only P (and_then res k) fb"
proof (cases res)
  case None
  then show ?thesis by (simp add: registers_only_def)
next
  case (Some out)
  show ?thesis
  proof (cases out)
    case Panicked
    with Some show ?thesis by (simp add: registers_only_def)
  next
    case (Returned x)
    obtain err fb1 sb1 where x: "x = (err, fb1, sb1)"
      by (cases x)
    from assms(1) have pre: "take (length (file_messages fb)) (file_messages fb1) = file_messages fb"
      and new: "list_all P (drop (length (file_messages fb)) (file_messages fb1))"
      by (simp_all add: registers_only_def Some Returned x)
    show ?thesis
    proof (cases err)
      case (Some e)
      with assms(1) show ?thesis
        using \<open>res = Some out\<close> Returned x by simp
    next
      case None
      have res: "and_then res k = k fb1 sb1"
        using \<open>res = Some out\<close> Returned x None by simp
      show ?thesis
      proof (cases "k fb1 sb1")
        case None
        then show ?thesis by (simp add: res registers_only_def)
      next
        case (Some out2)
        show ?thesis
        proof (cases out2)
          case Panicked
          with Some show ?thesis by (simp add: res registers_only_def)
        next
          case (Returned y)
          obtain err2 fb2 sb2 where y: "y = (err2, fb2, sb2)"
            by (cases y)
          from assms(2) [of fb1 sb1] have
            pre2: "take (length (file_messages fb1)) (file_messages fb2) = file_messages fb1"
            and new2: "list_all P (drop (length (file_messages fb1)) (file_messages fb2))"
            by (simp_all add: registers_only_def Some Returned y)
          from pre obtain ms where ms: "file_messages fb1 = file_messages fb @ ms"
            by (metis append_take_drop_id)
          from pre2 obtain ms2 where ms2: "file_messages fb2 = file_messages fb1 @ ms2"
            by (metis append_take_drop_id)
          from new new2 show ?thesis
            by (simp add: res Some Returned y registers_only_def ms ms2)
        qed
      qed
    qed
  qed
qed

text \<open>
  Claim C8. Whenever \<^verbatim>\<open>AddResource\<close> returns, with an error or without, the file builder
  is the one it was given followed by the messages it registered, and every message after
  the first of them (the resource message) is made of structural fields only: its fields
  are, in order, those of a row of the layout, each under its name and with its reserved
  number. The reserved number of a structural field is a constant of the table and does
  not read the resource, so a structural field has one number in all messages of all
  resources.
\<close>

theorem structural_fields_have_reserved_numbers:
  assumes "AddResource c d r fb sb = Some (Returned (err, fb', sb'))"
  shows "\<exists>new. file_messages fb' = file_messages fb @ new \<and>
           (\<forall>mb\<in>set (drop 1 new). \<exists>M\<in>set all_method_kinds. \<exists>row\<in>set (layout M).
              map (\<lambda>f. (field_name f, field_number f)) (message_fields mb) =
                map (\<lambda>F. (structural_name c (Kind r) F, reserved_number c F)) row)"
proof (cases "GeneratedResourceMessage r")
  case (Inl e)
  with assms have "fb' = fb"
    by (simp add: AddResource_def)
  then show ?thesis by simp
next
  case (Inr mb)
  define rmb where "rmb = Message_SetComments (''A '' @ Kind r @ '' resource.'') mb"
  let ?P = "\<lambda>mb. structural_signature c (Kind r) (message_sig mb)"
  have "registers_only ?P (AddResource c d r fb sb) (AddMessage rmb fb)"
  proof (cases "Methods r")
    case None
    then show ?thesis
      by (simp add: AddResource_def Inr Let_def rmb_def registers_only_def)
  next
    case (Some m)
    show ?thesis
      unfolding AddResource_def Inr sum.case Let_def Some option.case rmb_def [symmetric]
      by (intro registers_only_and_then registers_only_when_set registers_only_generators)
  qed
  with assms have pre: "take (length (file_messages (AddMessage rmb fb))) (file_messages fb') =
        file_messages (AddMessage rmb fb)"
    and new: "list_all ?P (drop (length (file_messages (AddMessage rmb fb))) (file_messages fb'))"
    by (simp_all add: registers_only_def)
  from pre obtain ms where ms: "file_messages fb' = file_messages (AddMessage rmb fb) @ ms"
    by (metis append_take_drop_id)
  then have fb': "file_messages fb' = file_messages fb @ rmb # ms"
    by (simp add: AddMessage_def)
  from new have "\<forall>mb\<in>set ms. ?P mb"
    by (simp add: ms list_all_iff)
  then have "\<forall>mb\<in>set (drop 1 (rmb # ms)). \<exists>M\<in>set all_method_kinds. \<exists>row\<in>set (layout M).
              map (\<lambda>f. (field_name f, field_number f)) (message_fields mb) =
                map (\<lambda>F. (structural_name c (Kind r) F, reserved_number c F)) row"
    by (simp add: structural_signature_def message_sig_def)
  with fb' show ?thesis by blast
qed

text \<open>
  On the compilations that succeed the field numbers of the request and response messages
  are known exactly: message by message, they are the reserved numbers of the layout of
  the enabled method kinds. The right-hand side reads the resource only through the set
  of its enabled methods.
\<close>

lemma field_numbers_of_successful_compilation:
  assumes "\<forall>p\<in>set (Fields r). mapped (Type p)"
    and "shallow r"
    and "enabled r M_Delete \<longrightarrow> snd (LoadMessageDescriptor d ''google.protobuf.Empty'') = None"
  shows "\<exists>resourceMb ms ns.
           AddResource c d r fb sb =
             Some (Returned (None, fb\<lparr>file_messages := file_messages fb @ resourceMb # ms\<rparr>,
                                   sb\<lparr>service_methods := service_methods sb @ ns\<rparr>)) \<and>
           map (\<lambda>mb. map field_number (message_fields mb)) ms =
             concat (map (\<lambda>M. map (map (reserved_number c)) (layout M))
                         (filter (enabled r) all_method_kinds))"
proof -
  from AddResource_yields [OF assms, of c fb sb] obtain ms ns where
    res: "AddResource c d r fb sb =
            Some (Returned (None, fb\<lparr>file_messages := file_messages fb @ ms\<rparr>,
                                  sb\<lparr>service_methods := service_methods sb @ ns\<rparr>))"
    and sigs: "map message_sig ms =
            (Kind r, map (\<lambda>p. (Name p, Number p)) (GetFieldsSortedByNumber r)) #
            concat (map (prescribed_messages c (Kind r)) (filter (enabled r) all_method_kinds))"
    by (rule yieldsE)
  from sigs obtain resourceMb ms' where ms: "ms = resourceMb # ms'"
    and sigs': "map message_sig ms' =
            concat (map (prescribed_messages c (Kind r)) (filter (enabled r) all_method_kinds))"
    by (cases ms) auto
  have "map (\<lambda>mb. map field_number (message_fields mb)) ms' =
          map (\<lambda>s. map snd (snd s)) (map message_sig ms')"
    by (simp add: field_numbers_sig)
  also have "\<dots> = concat (map (\<lambda>M. map (map (reserved_number c)) (layout M))
                         (filter (enabled r) all_method_kinds))"
    unfolding sigs' by (simp add: map_concat comp_def numbers_prescribed_messages)
  finally show ?thesis
    using res ms by blast
qed

theorem structural_fields_have_reserved_numbers_Book:
  "\<exists>err fb' sb' new.
     AddResource example_constants full_registry Book NewFile NewService =
       Some (Returned (err, fb', sb')) \<and>
     file_messages fb' = file_messages NewFile @ new \<and>
     (\<forall>mb\<in>set (drop 1 new). \<exists>M\<in>set all_method_kinds. \<exists>row\<in>set (layout M).
        map (\<lambda>f. (field_name f, field_number f)) (message_fields mb) =
          map (\<lambda>F. (structural_name example_constants ''Book'' F,
                     reserved_number example_constants F)) row) \<and>
     map (\<lambda>mb. map field_number (message_fields mb)) (drop 1 new) = [[1, 2, 3], [1], [1]]"
proof -
  have empty: "enabled Book M_Delete \<longrightarrow>
      snd (LoadMessageDescriptor full_registry ''google.protobuf.Empty'') = None"
    by (simp add: full_registry_def)
  have numbers: "concat (map (\<lambda>M. map (map (reserved_number example_constants)) (layout M))
                         (filter (enabled Book) all_method_kinds)) = [[1, 2, 3], [1], [1]]"
    by code_simp
  have kind: "Kind Book = ''Book''"
    by (simp add: Book_def)
  from field_numbers_of_successful_compilation [OF mapped_Book shallow_Book empty,
      of example_constants NewFile NewService]
  obtain resourceMb ms ns where
    res: "AddResource example_constants full_registry Book NewFile NewService =
       Some (Returned (None, NewFile\<lparr>file_messages := file_messages NewFile @ resourceMb # ms\<rparr>,
                             NewService\<lparr>service_methods := service_methods NewService @ ns\<rparr>))"
    and nums: "map (\<lambda>mb. map field_number (message_fields mb)) ms = [[1, 2, 3], [1], [1]]"
    unfolding numbers by (elim exE conjE) (rule that)
  from structural_fields_have_reserved_numbers [OF res] obtain new where
    new: "file_messages (NewFile\<lparr>file_messages := file_messages NewFile @ resourceMb # ms\<rparr>) =
            file_messages NewFile @ new"
    and inv: "\<forall>mb\<in>set (drop 1 new). \<exists>M\<in>set all_method_kinds. \<exists>row\<in>set (layout M).
        map (\<lambda>f. (field_name f, field_number f)) (message_fields mb) =
          map (\<lambda>F. (structural_name example_constants (Kind Book) F,
                     reserved_number example_constants F)) row"
    by (elim exE conjE) (rule that)
  from new have "new = resourceMb # ms"
    by simp
  with nums have nums': "map (\<lambda>mb. map field_number (message_fields mb)) (drop 1 new) =
      [[1, 2, 3], [1], [1]]"
    by simp
  show ?thesis
    by (intro exI conjI) (rule res, rule new, rule inv [unfolded kind], rule nums')
qed

section \<open>Independence of the builders\<close>


















end
